theory Spec2Isabelle
  imports Main "HOL-Library.Word" "HOL-Library.Sublist"
begin

section \<open>JavaScript strings\<close>

text \<open>
  A JavaScript string is a sequence of 16-bit UTF-16 code units; the regular
  expressions of \<^verbatim>\<open>routes.ts\<close> carry no \<^verbatim>\<open>u\<close> flag, so they too work on
  code units. String literals of the source are ASCII and are written with \<open>js\<close>.
\<close>

type_synonym jschar = "16 word"
type_synonym jsstring = "jschar list"

definition js :: "string \<Rightarrow> jsstring" where
  "js s = map of_char s"

text \<open>\<^verbatim>\<open>LineTerminator\<close>: the characters that \<^verbatim>\<open>.\<close> does not match.\<close>

definition is_line_terminator :: "jschar \<Rightarrow> bool" where
  "is_line_terminator c = (c = 0x0A \<or> c = 0x0D \<or> c = 0x2028 \<or> c = 0x2029)"

text \<open>\<^verbatim>\<open>WhiteSpace\<close> and \<^verbatim>\<open>LineTerminator\<close>: what \<^verbatim>\<open>String.prototype.trim\<close> strips.\<close>

definition is_trim_space :: "jschar \<Rightarrow> bool" where
  "is_trim_space c =
     (c = 0x09 \<or> c = 0x0B \<or> c = 0x0C \<or> c = 0x20 \<or> c = 0xA0 \<or> c = 0xFEFF
      \<or> c = 0x1680 \<or> (0x2000 \<le> unat c \<and> unat c \<le> 0x200A)
      \<or> c = 0x202F \<or> c = 0x205F \<or> c = 0x3000 \<or> is_line_terminator c)"

definition trim :: "jsstring \<Rightarrow> jsstring" where
  "trim s = rev (dropWhile is_trim_space (rev (dropWhile is_trim_space s)))"

text \<open>The class \<^verbatim>\<open>\w\<close>, which decides the word boundary \<^verbatim>\<open>\b\<close>.\<close>

definition is_word_char :: "jschar \<Rightarrow> bool" where
  "is_word_char c =
     ((0x30 \<le> unat c \<and> unat c \<le> 0x39) \<or> (0x41 \<le> unat c \<and> unat c \<le> 0x5A)
      \<or> c = 0x5F \<or> (0x61 \<le> unat c \<and> unat c \<le> 0x7A))"

text \<open>
  \<^verbatim>\<open>s.replace(/pat/g, rep)\<close> for a regular expression that is a plain literal:
  the matches are found left to right, each search resuming after the previous match.
\<close>

function replace_literal :: "jsstring \<Rightarrow> jsstring \<Rightarrow> jsstring \<Rightarrow> jsstring" where
  "replace_literal pat rep [] = []"
| "replace_literal pat rep (c # cs) =
     (if pat \<noteq> [] \<and> prefix pat (c # cs)
      then rep @ replace_literal pat rep (drop (length pat) (c # cs))
      else c # replace_literal pat rep cs)"
  by pat_completeness auto
termination
  by (relation "measure (\<lambda>(pat, rep, s). length s)") auto

section \<open>The clean-up of the generated query\<close>

text \<open>\<^verbatim>\<open>.replace(/[\r\n]/g, ' ')\<close>\<close>

definition replace_newlines :: "jsstring \<Rightarrow> jsstring" where
  "replace_newlines s = map (\<lambda>c. if c = 0x0D \<or> c = 0x0A then 0x20 else c) s"

text \<open>\<^verbatim>\<open>.replace(/ISNOTNULL/g, 'isnotnull')\<close>: the expression has no \<^verbatim>\<open>i\<close> flag.\<close>

definition replace_isnotnull :: "jsstring \<Rightarrow> jsstring" where
  "replace_isnotnull s = replace_literal (js ''ISNOTNULL'') (js ''isnotnull'') s"

text \<open>\<^verbatim>\<open>.replace(/`/g, '')\<close>\<close>

definition remove_backticks :: "jsstring \<Rightarrow> jsstring" where
  "remove_backticks s = filter (\<lambda>c. c \<noteq> 0x60) s"

text \<open>
  \<^verbatim>\<open>.replace(/\bSPAN\(/g, 'span(')\<close>. The first argument tells whether the character
  before the current position is a word character: \<^verbatim>\<open>\b\<close> in front of \<^verbatim>\<open>S\<close>
  holds exactly when it is not (or at the start of the string).
\<close>

function replace_span :: "bool \<Rightarrow> jsstring \<Rightarrow> jsstring" where
  "replace_span prev_word [] = []"
| "replace_span prev_word (c # cs) =
     (if \<not> prev_word \<and> prefix (js ''SPAN('') (c # cs)
      then js ''span('' @ replace_span False (drop 5 (c # cs))
      else c # replace_span (is_word_char c) cs)"
  by pat_completeness auto
termination
  by (relation "measure (\<lambda>(p, s). length s)") auto

text \<open>Lines 85 to 90: the chain of calls on \<^verbatim>\<open>result.ppl\<close>.\<close>

definition clean_ppl :: "jsstring \<Rightarrow> jsstring" where
  "clean_ppl ppl =
     replace_span False (remove_backticks (replace_isnotnull (trim (replace_newlines ppl))))"

section \<open>JSON values, \<^verbatim>\<open>JSON.parse\<close> and \<^verbatim>\<open>JSON.stringify\<close>\<close>

text \<open>
  The values \<^verbatim>\<open>JSON.parse\<close> can return. A number keeps the text it was written
  with: the handlers never compute with one. An object keeps its members in the
  order of the text, duplicates included.
\<close>

datatype json =
    JNull
  | JBool bool
  | JNumber jsstring
  | JString jsstring
  | JArray "json list"
  | JObject "(jsstring \<times> json) list"

datatype token =
    TLBrace | TRBrace | TLBrack | TRBrack | TColon | TComma
  | TString jsstring | TNumber jsstring | TTrue | TFalse | TNull

definition is_digit :: "jschar \<Rightarrow> bool" where
  "is_digit c = (0x30 \<le> unat c \<and> unat c \<le> 0x39)"

definition hex_value :: "jschar \<Rightarrow> nat option" where
  "hex_value c =
     (if 0x30 \<le> unat c \<and> unat c \<le> 0x39 then Some (unat c - 0x30)
      else if 0x41 \<le> unat c \<and> unat c \<le> 0x46 then Some (unat c - 0x41 + 10)
      else if 0x61 \<le> unat c \<and> unat c \<le> 0x66 then Some (unat c - 0x61 + 10)
      else None)"

definition hex4 :: "jschar \<Rightarrow> jschar \<Rightarrow> jschar \<Rightarrow> jschar \<Rightarrow> jschar option" where
  "hex4 a b c d =
     (case (hex_value a, hex_value b, hex_value c, hex_value d) of
        (Some h3, Some h2, Some h1, Some h0) \<Rightarrow> Some (of_nat (((h3 * 16 + h2) * 16 + h1) * 16 + h0))
      | _ \<Rightarrow> None)"

text \<open>The character after a backslash, other than \<^verbatim>\<open>u\<close>.\<close>

definition escape_char :: "jschar \<Rightarrow> jschar option" where
  "escape_char e =
     (if e = 0x22 then Some 0x22
      else if e = 0x5C then Some 0x5C
      else if e = 0x2F then Some 0x2F
      else if e = 0x62 then Some 0x08
      else if e = 0x66 then Some 0x0C
      else if e = 0x6E then Some 0x0A
      else if e = 0x72 then Some 0x0D
      else if e = 0x74 then Some 0x09
      else None)"

text \<open>
  The rest of a string literal after its opening quote: the characters read so far,
  then the input. A control character below U+0020 must be escaped.
\<close>

fun lex_string :: "jsstring \<Rightarrow> jsstring \<Rightarrow> (jsstring \<times> jsstring) option" where
  "lex_string acc [] = None"
| "lex_string acc (c # cs) =
     (if c = 0x22 then Some (acc, cs)
      else if c = 0x5C then
        (case cs of
           [] \<Rightarrow> None
         | e # es \<Rightarrow>
             if e = 0x75 then
               (case es of
                  h3 # h2 # h1 # h0 # rest \<Rightarrow>
                    (case hex4 h3 h2 h1 h0 of
                       None \<Rightarrow> None
                     | Some u \<Rightarrow> lex_string (acc @ [u]) rest)
                | _ \<Rightarrow> None)
             else
               (case escape_char e of
                  None \<Rightarrow> None
                | Some x \<Rightarrow> lex_string (acc @ [x]) es))
      else if unat c < 0x20 then None
      else lex_string (acc @ [c]) cs)"

definition lex_int :: "jsstring \<Rightarrow> (jsstring \<times> jsstring) option" where
  "lex_int s =
     (case s of
        [] \<Rightarrow> None
      | d # ds \<Rightarrow>
          if d = 0x30 then Some ([d], ds)
          else if is_digit d then Some (d # takeWhile is_digit ds, dropWhile is_digit ds)
          else None)"

definition lex_digits1 :: "jsstring \<Rightarrow> (jsstring \<times> jsstring) option" where
  "lex_digits1 s =
     (if takeWhile is_digit s = [] then None
      else Some (takeWhile is_digit s, dropWhile is_digit s))"

definition lex_frac :: "jsstring \<Rightarrow> (jsstring \<times> jsstring) option" where
  "lex_frac s =
     (case s of
        [] \<Rightarrow> Some ([], s)
      | c # cs \<Rightarrow>
          if c = 0x2E then map_option (\<lambda>(ds, rest). (c # ds, rest)) (lex_digits1 cs)
          else Some ([], s))"

definition lex_exp :: "jsstring \<Rightarrow> (jsstring \<times> jsstring) option" where
  "lex_exp s =
     (case s of
        [] \<Rightarrow> Some ([], s)
      | c # cs \<Rightarrow>
          if c = 0x65 \<or> c = 0x45 then
            (case cs of
               [] \<Rightarrow> None
             | g # gs \<Rightarrow>
                 if g = 0x2B \<or> g = 0x2D
                 then map_option (\<lambda>(ds, rest). (c # g # ds, rest)) (lex_digits1 gs)
                 else map_option (\<lambda>(ds, rest). (c # ds, rest)) (lex_digits1 cs))
          else Some ([], s))"

text \<open>A number, from its first character (a minus sign or a digit) on.\<close>

definition lex_number :: "jsstring \<Rightarrow> (jsstring \<times> jsstring) option" where
  "lex_number s =
     (let (sign, s0) = (case s of c # cs \<Rightarrow> if c = 0x2D then ([c], cs) else ([], s) | [] \<Rightarrow> ([], s))
      in case lex_int s0 of
           None \<Rightarrow> None
         | Some (i, s1) \<Rightarrow>
             (case lex_frac s1 of
                None \<Rightarrow> None
              | Some (f, s2) \<Rightarrow>
                  (case lex_exp s2 of
                     None \<Rightarrow> None
                   | Some (e, s3) \<Rightarrow> Some (sign @ i @ f @ e, s3))))"

lemma lex_string_shorter: "lex_string acc s = Some (v, rest) \<Longrightarrow> length rest < length s"
  by (induction acc s rule: lex_string.induct)
    (auto split: if_splits list.splits option.splits simp: less_Suc_eq)

lemma lex_int_shorter: "lex_int s = Some (v, rest) \<Longrightarrow> length rest < length s"
  by (auto simp: lex_int_def less_Suc_eq_le length_dropWhile_le split: list.splits if_splits)

lemma lex_digits1_shorter: "lex_digits1 s = Some (v, rest) \<Longrightarrow> length rest \<le> length s"
  by (auto simp: lex_digits1_def length_dropWhile_le split: if_splits)

lemma lex_frac_shorter: "lex_frac s = Some (v, rest) \<Longrightarrow> length rest \<le> length s"
  by (auto simp: lex_frac_def split: list.splits if_splits dest!: lex_digits1_shorter)

lemma lex_exp_shorter: "lex_exp s = Some (v, rest) \<Longrightarrow> length rest \<le> length s"
  by (auto simp: lex_exp_def split: list.splits if_splits dest!: lex_digits1_shorter)

lemma lex_number_shorter: "lex_number s = Some (v, rest) \<Longrightarrow> length rest < length s"
proof -
  assume a: "lex_number s = Some (v, rest)"
  obtain sign s0 where s0: "(case s of c # cs \<Rightarrow> if c = 0x2D then ([c], cs) else ([], s) | [] \<Rightarrow> ([], s)) = (sign, s0)"
    by (cases "(case s of c # cs \<Rightarrow> if c = 0x2D then ([c], cs) else ([], s) | [] \<Rightarrow> ([], s))")
  then have l0: "length s0 \<le> length s"
    by (auto split: list.splits if_splits)
  from a s0 obtain i s1 f s2 e where
    "lex_int s0 = Some (i, s1)" "lex_frac s1 = Some (f, s2)" "lex_exp s2 = Some (e, rest)"
    by (auto simp: lex_number_def split: option.splits)
  then have "length s1 < length s0" "length s2 \<le> length s1" "length rest \<le> length s2"
    by (auto dest: lex_int_shorter lex_frac_shorter lex_exp_shorter)
  with l0 show ?thesis by simp
qed

definition is_json_space :: "jschar \<Rightarrow> bool" where
  "is_json_space c = (c = 0x09 \<or> c = 0x0A \<or> c = 0x0D \<or> c = 0x20)"

function tokenize :: "jsstring \<Rightarrow> token list option" where
  "tokenize [] = Some []"
| "tokenize (c # cs) =
     (if is_json_space c then tokenize cs
      else if c = 0x7B then map_option (Cons TLBrace) (tokenize cs)
      else if c = 0x7D then map_option (Cons TRBrace) (tokenize cs)
      else if c = 0x5B then map_option (Cons TLBrack) (tokenize cs)
      else if c = 0x5D then map_option (Cons TRBrack) (tokenize cs)
      else if c = 0x3A then map_option (Cons TColon) (tokenize cs)
      else if c = 0x2C then map_option (Cons TComma) (tokenize cs)
      else if c = 0x22 then
        (case lex_string [] cs of
           None \<Rightarrow> None
         | Some (s, rest) \<Rightarrow> map_option (Cons (TString s)) (tokenize rest))
      else if c = 0x2D \<or> is_digit c then
        (case lex_number (c # cs) of
           None \<Rightarrow> None
         | Some (n, rest) \<Rightarrow> map_option (Cons (TNumber n)) (tokenize rest))
      else if prefix (js ''true'') (c # cs) then map_option (Cons TTrue) (tokenize (drop 4 (c # cs)))
      else if prefix (js ''false'') (c # cs) then map_option (Cons TFalse) (tokenize (drop 5 (c # cs)))
      else if prefix (js ''null'') (c # cs) then map_option (Cons TNull) (tokenize (drop 4 (c # cs)))
      else None)"
  by pat_completeness auto
termination
  by (relation "measure length")
    (auto dest: lex_string_shorter lex_number_shorter simp: less_Suc_eq)

text \<open>
  The grammar over tokens, as a machine with a stack of the arrays and objects that
  are still open. An open object remembers the key that waits for its value.
\<close>

datatype frame =
    ArrayFrame "json list"
  | ObjectFrame "(jsstring \<times> json) list" "jsstring option"

datatype expect =
    Value | ValueOrClose | KeyOrClose | Key | Colon | CommaOrClose | End json

fun deliver :: "json \<Rightarrow> frame list \<Rightarrow> (expect \<times> frame list) option" where
  "deliver v [] = Some (End v, [])"
| "deliver v (ArrayFrame vs # st) = Some (CommaOrClose, ArrayFrame (vs @ [v]) # st)"
| "deliver v (ObjectFrame ms (Some k) # st) = Some (CommaOrClose, ObjectFrame (ms @ [(k, v)]) None # st)"
| "deliver v (ObjectFrame ms None # st) = None"

fun start_value :: "frame list \<Rightarrow> token \<Rightarrow> (expect \<times> frame list) option" where
  "start_value st (TString s) = deliver (JString s) st"
| "start_value st (TNumber n) = deliver (JNumber n) st"
| "start_value st TTrue = deliver (JBool True) st"
| "start_value st TFalse = deliver (JBool False) st"
| "start_value st TNull = deliver JNull st"
| "start_value st TLBrack = Some (ValueOrClose, ArrayFrame [] # st)"
| "start_value st TLBrace = Some (KeyOrClose, ObjectFrame [] None # st)"
| "start_value st _ = None"

fun parse_step :: "expect \<Rightarrow> frame list \<Rightarrow> token \<Rightarrow> (expect \<times> frame list) option" where
  "parse_step Value st t = start_value st t"
| "parse_step ValueOrClose (ArrayFrame vs # st) TRBrack = deliver (JArray vs) st"
| "parse_step ValueOrClose st t = start_value st t"
| "parse_step KeyOrClose (ObjectFrame ms k # st) TRBrace = deliver (JObject ms) st"
| "parse_step KeyOrClose (ObjectFrame ms _ # st) (TString k) = Some (Colon, ObjectFrame ms (Some k) # st)"
| "parse_step Key (ObjectFrame ms _ # st) (TString k) = Some (Colon, ObjectFrame ms (Some k) # st)"
| "parse_step Colon st TColon = Some (Value, st)"
| "parse_step CommaOrClose (ArrayFrame vs # st) TComma = Some (Value, ArrayFrame vs # st)"
| "parse_step CommaOrClose (ArrayFrame vs # st) TRBrack = deliver (JArray vs) st"
| "parse_step CommaOrClose (ObjectFrame ms k # st) TComma = Some (Key, ObjectFrame ms k # st)"
| "parse_step CommaOrClose (ObjectFrame ms k # st) TRBrace = deliver (JObject ms) st"
| "parse_step _ _ _ = None"

fun parse_tokens :: "expect \<Rightarrow> frame list \<Rightarrow> token list \<Rightarrow> json option" where
  "parse_tokens (End v) st [] = Some v"
| "parse_tokens e st [] = None"
| "parse_tokens e st (t # ts) =
     (case parse_step e st t of
        None \<Rightarrow> None
      | Some (e', st') \<Rightarrow> parse_tokens e' st' ts)"

section \<open>Errors and responses\<close>

text \<open>
  What a thrown error carries for the \<^verbatim>\<open>catch\<close> blocks: an optional
  \<^verbatim>\<open>statusCode\<close> and a \<^verbatim>\<open>message\<close>. The text of the message of an error
  raised by the JavaScript engine itself is the engine's choice and stays abstract.
\<close>

datatype message = Message jsstring | TypeError_message | SyntaxError_message

datatype js_error = Thrown (error_statusCode: "nat option") (error_message: message)

text \<open>\<^verbatim>\<open>new Error(msg)\<close>\<close>

definition new_Error :: "jsstring \<Rightarrow> js_error" where
  "new_Error msg = Thrown None (Message msg)"

text \<open>Reading a property of \<^verbatim>\<open>undefined\<close> or \<^verbatim>\<open>null\<close>, calling what is no function.\<close>

definition TypeError :: js_error where
  "TypeError = Thrown None TypeError_message"

definition SyntaxError :: js_error where
  "SyntaxError = Thrown None SyntaxError_message"

datatype body = Text message | SummaryBody jsstring "jsstring list"

record http_response =
  statusCode :: nat
  body :: body

definition response_ok :: "body \<Rightarrow> http_response" where
  "response_ok b = \<lparr>statusCode = 200, body = b\<rparr>"

definition response_custom :: "nat \<Rightarrow> body \<Rightarrow> http_response" where
  "response_custom code b = \<lparr>statusCode = code, body = b\<rparr>"

text \<open>
  The two \<^verbatim>\<open>catch\<close> blocks (lines 92 to 97 and 172 to 177):
  \<^verbatim>\<open>statusCode: error.statusCode || 500, body: error.message\<close>.
  The number 0 is falsy.
\<close>

definition error_response :: "js_error \<Rightarrow> http_response" where
  "error_response error =
     response_custom
       (case error_statusCode error of
          None \<Rightarrow> 500
        | Some code \<Rightarrow> if code = 0 then 500 else code)
       (Text (error_message error))"

definition JSON_parse :: "jsstring \<Rightarrow> js_error + json" where
  "JSON_parse text =
     (case tokenize text of
        None \<Rightarrow> Inl SyntaxError
      | Some ts \<Rightarrow>
          (case parse_tokens Value [] ts of
             None \<Rightarrow> Inl SyntaxError
           | Some v \<Rightarrow> Inr v))"

text \<open>An own property of a parsed object: of two members with one key the later stays.\<close>

definition own_property :: "(jsstring \<times> json) list \<Rightarrow> jsstring \<Rightarrow> json option" where
  "own_property ms k = map_of (rev ms) k"

text \<open>
  \<^verbatim>\<open>JSON.stringify\<close> of a string: quotes, with the escapes of \<^verbatim>\<open>QuoteJSONString\<close>
  (a surrogate that is not part of a pair is written as \<^verbatim>\<open>\uXXXX\<close>).
\<close>

definition hex_digit :: "nat \<Rightarrow> jschar" where
  "hex_digit n = (if n < 10 then of_nat (0x30 + n) else of_nat (0x61 + (n - 10)))"

definition unicode_escape :: "jschar \<Rightarrow> jsstring" where
  "unicode_escape c =
     [0x5C, 0x75, hex_digit (unat c div 4096 mod 16), hex_digit (unat c div 256 mod 16),
      hex_digit (unat c div 16 mod 16), hex_digit (unat c mod 16)]"

definition is_high_surrogate :: "jschar \<Rightarrow> bool" where
  "is_high_surrogate c = (0xD800 \<le> unat c \<and> unat c \<le> 0xDBFF)"

definition is_low_surrogate :: "jschar \<Rightarrow> bool" where
  "is_low_surrogate c = (0xDC00 \<le> unat c \<and> unat c \<le> 0xDFFF)"

fun quote_json_chars :: "jsstring \<Rightarrow> jsstring" where
  "quote_json_chars [] = []"
| "quote_json_chars [c] =
     (if c = 0x08 then [0x5C, 0x62]
      else if c = 0x09 then [0x5C, 0x74]
      else if c = 0x0A then [0x5C, 0x6E]
      else if c = 0x0C then [0x5C, 0x66]
      else if c = 0x0D then [0x5C, 0x72]
      else if c = 0x22 then [0x5C, 0x22]
      else if c = 0x5C then [0x5C, 0x5C]
      else if unat c < 0x20 \<or> is_high_surrogate c \<or> is_low_surrogate c then unicode_escape c
      else [c])"
| "quote_json_chars (c # d # cs) =
     (if is_high_surrogate c \<and> is_low_surrogate d then c # d # quote_json_chars cs
      else quote_json_chars [c] @ quote_json_chars (d # cs))"

definition JSON_stringify_string :: "jsstring \<Rightarrow> jsstring" where
  "JSON_stringify_string s = [0x22] @ quote_json_chars s @ [0x22]"

section \<open>The suggested questions\<close>

text \<open>
  \<^verbatim>\<open>text.matchAll(/<question>((.|[\r\n])+?)<\/question>/g)\<close>, then the first group of
  every match. \<open>regex_dot\<close> is \<^verbatim>\<open>.\<close> (no \<^verbatim>\<open>s\<close> flag), \<open>regex_dot_or_newline\<close>
  is \<^verbatim>\<open>(.|[\r\n])\<close>.
\<close>

definition regex_dot :: "jschar \<Rightarrow> bool" where
  "regex_dot c = (\<not> is_line_terminator c)"

definition regex_dot_or_newline :: "jschar \<Rightarrow> bool" where
  "regex_dot_or_newline c = (regex_dot c \<or> c = 0x0D \<or> c = 0x0A)"

definition open_tag :: jsstring where
  "open_tag = js ''<question>''"

definition close_tag :: jsstring where
  "close_tag = js ''</question>''"

text \<open>
  The lazy \<^verbatim>\<open>+?\<close> with one character at least already taken: the group read so far,
  then the input. The closing tag is tried first at every position; only when it is
  not there the group takes one more character.
\<close>

fun lazy_group :: "jsstring \<Rightarrow> jsstring \<Rightarrow> (jsstring \<times> jsstring) option" where
  "lazy_group acc [] = None"
| "lazy_group acc (c # cs) =
     (if prefix close_tag (c # cs) then Some (acc, drop (length close_tag) (c # cs))
      else if regex_dot_or_newline c then lazy_group (acc @ [c]) cs
      else None)"

text \<open>One attempt at the start of the input: the first group and what follows the match.\<close>

definition match_question :: "jsstring \<Rightarrow> (jsstring \<times> jsstring) option" where
  "match_question s =
     (if prefix open_tag s then
        (case drop (length open_tag) s of
           [] \<Rightarrow> None
         | c # cs \<Rightarrow> if regex_dot_or_newline c then lazy_group [c] cs else None)
      else None)"

lemma lazy_group_shorter: "lazy_group acc s = Some (g, rest) \<Longrightarrow> length rest \<le> length s"
  by (induction acc s rule: lazy_group.induct) (auto split: if_splits)

lemma match_question_shorter: "match_question s = Some (g, rest) \<Longrightarrow> length rest < length s"
proof -
  assume a: "match_question s = Some (g, rest)"
  then obtain c cs where d: "drop (length open_tag) s = c # cs" and l: "lazy_group [c] cs = Some (g, rest)"
    unfolding match_question_def by (simp split: if_splits list.splits)
  have "length (drop (length open_tag) s) = Suc (length cs)"
    by (simp only: d length_Cons)
  then have "length cs < length s"
    by (simp only: length_drop)
  with lazy_group_shorter [OF l] show ?thesis by simp
qed

function question_matches :: "jsstring \<Rightarrow> jsstring list" where
  "question_matches [] = []"
| "question_matches (c # cs) =
     (case match_question (c # cs) of
        Some (g, rest) \<Rightarrow> g # question_matches rest
      | None \<Rightarrow> question_matches cs)"
  by pat_completeness auto
termination
  by (relation "measure length") (auto dest: match_question_shorter)

section \<open>Configuration, requests and the OpenSearch client\<close>

text \<open>\<^verbatim>\<open>config.query_assist\<close>: each identifier may be missing.\<close>

record query_assist =
  ppl_agent_id :: "jsstring option"
  response_summary_agent_id :: "jsstring option"
  error_summary_agent_id :: "jsstring option"

text \<open>Truthiness of an optional string: \<^verbatim>\<open>undefined\<close> and \<^verbatim>\<open>''\<close> are falsy.\<close>

definition truthy :: "jsstring option \<Rightarrow> bool" where
  "truthy v = (case v of None \<Rightarrow> False | Some s \<Rightarrow> s \<noteq> [])"

text \<open>The request bodies after validation (lines 46 to 49 and 105 to 111).\<close>

record generate_body =
  index :: jsstring
  question :: jsstring

record summarize_body = generate_body +
  query :: "jsstring option"
  response :: jsstring
  isError :: bool

text \<open>
  \<^verbatim>\<open>schema.object\<close> on the parsed request body: every declared key has a value of
  its type, \<^verbatim>\<open>schema.maybe\<close> lets a key be missing, and no other key is there.
\<close>

definition validate_generate_body :: "json \<Rightarrow> generate_body option" where
  "validate_generate_body j =
     (case j of
        JObject ms \<Rightarrow>
          (case (own_property ms (js ''index''), own_property ms (js ''question'')) of
             (Some (JString i), Some (JString q)) \<Rightarrow>
               if list_all (\<lambda>(k, v). k \<in> set [js ''index'', js ''question'']) ms
               then Some \<lparr>index = i, question = q\<rparr>
               else None
           | _ \<Rightarrow> None)
      | _ \<Rightarrow> None)"

definition validate_summarize_body :: "json \<Rightarrow> summarize_body option" where
  "validate_summarize_body j =
     (case j of
        JObject ms \<Rightarrow>
          (case (own_property ms (js ''index''), own_property ms (js ''question''),
                 own_property ms (js ''response''), own_property ms (js ''isError'')) of
             (Some (JString i), Some (JString q), Some (JString r), Some (JBool e)) \<Rightarrow>
               if list_all (\<lambda>(k, v). k \<in> set [js ''index'', js ''question'', js ''query'',
                                                 js ''response'', js ''isError'']) ms
               then
                 (case own_property ms (js ''query'') of
                    None \<Rightarrow>
                      Some \<lparr>index = i, question = q, query = None, response = r, isError = e\<rparr>
                  | Some (JString y) \<Rightarrow>
                      Some \<lparr>index = i, question = q, query = Some y, response = r, isError = e\<rparr>
                  | Some _ \<Rightarrow> None)
               else None
           | _ \<Rightarrow> None)
      | _ \<Rightarrow> None)"

text \<open>
  The argument of \<^verbatim>\<open>client.transport.request\<close>: the request and
  \<^verbatim>\<open>AGENT_REQUEST_OPTIONS\<close>. A parameter whose value is \<^verbatim>\<open>undefined\<close> is \<open>None\<close>.
\<close>

record agent_request =
  "method" :: jsstring
  path :: jsstring
  parameters :: "(jsstring \<times> jsstring option) list"
  requestTimeout :: nat
  maxRetries :: nat

definition agent_execute :: "jsstring \<Rightarrow> jsstring \<Rightarrow> (jsstring \<times> jsstring option) list \<Rightarrow> agent_request" where
  "agent_execute ML_COMMONS_API_PREFIX agent_id params =
     \<lparr>method = js ''POST'',
      path = ML_COMMONS_API_PREFIX @ js ''/agents/'' @ agent_id @ js ''/_execute'',
      parameters = params,
      requestTimeout = 5 * 60 * 1000,
      maxRetries = 0\<rparr>"

text \<open>The body of an \<^verbatim>\<open>AgentResponse\<close> (lines 29 to 33).\<close>

record output_item =
  name :: jsstring
  result :: "jsstring option"

record inference_result =
  "output" :: "output_item list"

record agent_response =
  inference_results :: "inference_result list"

text \<open>
  The calls a handler makes on the client, and the client as the outcome of each
  call: the promise is fulfilled (\<open>Inr\<close>) or rejected (\<open>Inl\<close>). The types of the
  mappings and of the search result are left open. When both promises under
  \<^verbatim>\<open>Promise.all\<close> are rejected, the error of the one rejected first is thrown;
  \<open>getMapping_settles_first\<close> says which.
\<close>

datatype call =
    TransportRequest agent_request
  | GetMapping jsstring
  | Search jsstring nat

record ('m, 'd) opensearch_client =
  transport_request :: "agent_request \<Rightarrow> js_error + agent_response"
  indices_getMapping :: "jsstring \<Rightarrow> js_error + 'm"
  search :: "jsstring \<Rightarrow> nat \<Rightarrow> js_error + 'd"
  getMapping_settles_first :: bool

definition promise_all :: "bool \<Rightarrow> js_error + 'a \<Rightarrow> js_error + 'b \<Rightarrow> js_error + 'a \<times> 'b" where
  "promise_all first_settles_first p q =
     (case p of
        Inr x \<Rightarrow> (case q of Inr y \<Rightarrow> Inr (x, y) | Inl e \<Rightarrow> Inl e)
      | Inl e \<Rightarrow> (case q of Inr y \<Rightarrow> Inl e | Inl e' \<Rightarrow> Inl (if first_settles_first then e else e')))"

text \<open>An array element: \<^verbatim>\<open>undefined\<close> out of range.\<close>

definition element :: "'a list \<Rightarrow> nat \<Rightarrow> 'a option" where
  "element xs i = (if i < length xs then Some (xs ! i) else None)"

text \<open>
  \<^verbatim>\<open>body.inference_results[0].output[0].result\<close>: a \<^verbatim>\<open>TypeError\<close> when
  \<^verbatim>\<open>inference_results[0]\<close> or \<^verbatim>\<open>output[0]\<close> is \<^verbatim>\<open>undefined\<close>.
\<close>

definition first_result :: "agent_response \<Rightarrow> js_error + jsstring option" where
  "first_result r =
     (case element (inference_results r) 0 of
        None \<Rightarrow> Inl TypeError
      | Some inference \<Rightarrow>
          (case element (output inference) 0 of
             None \<Rightarrow> Inl TypeError
           | Some out \<Rightarrow> Inr (result out)))"

section \<open>The handler of \<^verbatim>\<open>QUERY_ASSIST_API.GENERATE_PPL\<close>\<close>

text \<open>
  \<^verbatim>\<open>result.ppl\<close> followed by the first \<^verbatim>\<open>.replace\<close>: only a string has that
  method, and \<^verbatim>\<open>null\<close> has no property at all.
\<close>

definition ppl_of :: "json \<Rightarrow> js_error + jsstring" where
  "ppl_of parsed =
     (case parsed of
        JObject ms \<Rightarrow>
          (case own_property ms (js ''ppl'') of
             Some (JString ppl) \<Rightarrow> Inr ppl
           | _ \<Rightarrow> Inl TypeError)
      | _ \<Rightarrow> Inl TypeError)"

text \<open>Lines 79 to 91, inside \<^verbatim>\<open>try\<close>, once the agent has answered.\<close>

definition generate_ppl_result :: "agent_response \<Rightarrow> js_error + http_response" where
  "generate_ppl_result pplRequest =
     (case first_result pplRequest of
        Inl e \<Rightarrow> Inl e
      | Inr res \<Rightarrow>
          if \<not> truthy res then Inl (new_Error (js ''Generated PPL query not found.''))
          else
            (case JSON_parse (the res) of
               Inl e \<Rightarrow> Inl e
             | Inr parsed \<Rightarrow>
                 (case ppl_of parsed of
                    Inl e \<Rightarrow> Inl e
                  | Inr ppl \<Rightarrow> Inr (response_ok (Text (Message (clean_ppl ppl)))))))"

definition ppl_agent_missing :: jsstring where
  "ppl_agent_missing =
     js ''PPL agent not found in opensearch_dashboards.yml. Expected observability.query_assist.ppl_agent_id''"

text \<open>The request of lines 66 to 78.\<close>

definition ppl_agent_request :: "jsstring \<Rightarrow> query_assist \<Rightarrow> generate_body \<Rightarrow> agent_request" where
  "ppl_agent_request ML_COMMONS_API_PREFIX config request_body =
     agent_execute ML_COMMONS_API_PREFIX (the (ppl_agent_id config))
       [(js ''index'', Some (index request_body)),
        (js ''question'', Some (question request_body))]"

text \<open>
  The \<^verbatim>\<open>try\<close> block, lines 66 to 91: the response returned or the error thrown,
  and the calls made on the client, in the order they were made.
\<close>

definition generate_ppl_try ::
  "jsstring \<Rightarrow> query_assist \<Rightarrow> ('m, 'd) opensearch_client \<Rightarrow> generate_body
   \<Rightarrow> (js_error + http_response) \<times> call list" where
  "generate_ppl_try ML_COMMONS_API_PREFIX config client request_body =
     (let request = ppl_agent_request ML_COMMONS_API_PREFIX config request_body
      in (case transport_request client request of
            Inl e \<Rightarrow> Inl e
          | Inr pplRequest \<Rightarrow> generate_ppl_result pplRequest,
          [TransportRequest request]))"

text \<open>Lines 57 to 97: the response and the calls made.\<close>

definition generate_ppl ::
  "jsstring \<Rightarrow> query_assist \<Rightarrow> ('m, 'd) opensearch_client \<Rightarrow> generate_body \<Rightarrow> http_response \<times> call list" where
  "generate_ppl ML_COMMONS_API_PREFIX config client request_body =
     (if \<not> truthy (ppl_agent_id config)
      then (response_custom 400 (Text (Message ppl_agent_missing)), [])
      else
        (case generate_ppl_try ML_COMMONS_API_PREFIX config client request_body of
           (Inl error, calls) \<Rightarrow> (error_response error, calls)
         | (Inr ok, calls) \<Rightarrow> (ok, calls)))"

section \<open>The handler of \<^verbatim>\<open>QUERY_ASSIST_API.SUMMARIZE\<close>\<close>

text \<open>The requests of lines 132 to 141 and of lines 148 to 157.\<close>

definition response_summary_request :: "jsstring \<Rightarrow> query_assist \<Rightarrow> summarize_body \<Rightarrow> jsstring \<Rightarrow> agent_request" where
  "response_summary_request ML_COMMONS_API_PREFIX config request_body queryResponse =
     agent_execute ML_COMMONS_API_PREFIX (the (response_summary_agent_id config))
       [(js ''index'', Some (index request_body)),
        (js ''question'', Some (question request_body)),
        (js ''query'', query request_body),
        (js ''response'', Some queryResponse)]"

definition error_summary_request ::
  "jsstring \<Rightarrow> query_assist \<Rightarrow> summarize_body \<Rightarrow> jsstring \<Rightarrow> jsstring \<Rightarrow> agent_request" where
  "error_summary_request ML_COMMONS_API_PREFIX config request_body queryResponse fieldContext =
     agent_execute ML_COMMONS_API_PREFIX (the (error_summary_agent_id config))
       [(js ''index'', Some (index request_body)),
        (js ''question'', Some (question request_body)),
        (js ''query'', query request_body),
        (js ''response'', Some queryResponse),
        (js ''fields'', Some fieldContext)]"

text \<open>
  Lines 131 to 158: the agent's answer or the error thrown, with the calls made.
  \<open>generateFieldContext\<close> is imported from
  \<^verbatim>\<open>common/helpers/query_assist/generate_field_context\<close> and is a parameter
  here; it may throw.
\<close>

definition request_summary ::
  "jsstring \<Rightarrow> query_assist \<Rightarrow> ('m, 'd) opensearch_client \<Rightarrow> ('m \<Rightarrow> 'd \<Rightarrow> js_error + jsstring)
   \<Rightarrow> summarize_body \<Rightarrow> jsstring \<Rightarrow> (js_error + agent_response) \<times> call list" where
  "request_summary ML_COMMONS_API_PREFIX config client generateFieldContext request_body queryResponse =
     (if \<not> isError request_body then
        let request = response_summary_request ML_COMMONS_API_PREFIX config request_body queryResponse
        in (transport_request client request, [TransportRequest request])
      else
        let fetches = [GetMapping (index request_body), Search (index request_body) 1]
        in (case promise_all (getMapping_settles_first client)
                   (indices_getMapping client (index request_body))
                   (search client (index request_body) 1) of
              Inl e \<Rightarrow> (Inl e, fetches)
            | Inr (mappings, sampleDoc) \<Rightarrow>
                (case generateFieldContext mappings sampleDoc of
                   Inl e \<Rightarrow> (Inl e, fetches)
                 | Inr fieldContext \<Rightarrow>
                     let request = error_summary_request ML_COMMONS_API_PREFIX config request_body
                                     queryResponse fieldContext
                     in (transport_request client request, fetches @ [TransportRequest request]))))"

text \<open>\<^verbatim>\<open>body.inference_results[0].output[1]?.result || ''\<close>\<close>

definition second_result_or_empty :: "agent_response \<Rightarrow> js_error + jsstring" where
  "second_result_or_empty r =
     (case element (inference_results r) 0 of
        None \<Rightarrow> Inl TypeError
      | Some inference \<Rightarrow>
          (case element (output inference) 1 of
             None \<Rightarrow> Inr []
           | Some out \<Rightarrow> (case result out of None \<Rightarrow> Inr [] | Some text \<Rightarrow> Inr text)))"

text \<open>Lines 159 to 171.\<close>

definition summarize_result :: "agent_response \<Rightarrow> js_error + http_response" where
  "summarize_result summaryRequest =
     (case first_result summaryRequest of
        Inl e \<Rightarrow> Inl e
      | Inr summary \<Rightarrow>
          if \<not> truthy summary then Inl (new_Error (js ''Generated summary not found.''))
          else
            (case second_result_or_empty summaryRequest of
               Inl e \<Rightarrow> Inl e
             | Inr text \<Rightarrow>
                 Inr (response_ok (SummaryBody (the summary) (question_matches text)))))"

definition summary_agent_missing :: jsstring where
  "summary_agent_missing =
     js ''Summary agent not found in opensearch_dashboards.yml. Expected observability.query_assist.response_summary_agent_id and observability.query_assist.error_summary_agent_id''"

text \<open>The \<^verbatim>\<open>try\<close> block, lines 131 to 171.\<close>

definition summarize_try ::
  "jsstring \<Rightarrow> query_assist \<Rightarrow> ('m, 'd) opensearch_client \<Rightarrow> ('m \<Rightarrow> 'd \<Rightarrow> js_error + jsstring)
   \<Rightarrow> summarize_body \<Rightarrow> jsstring \<Rightarrow> (js_error + http_response) \<times> call list" where
  "summarize_try ML_COMMONS_API_PREFIX config client generateFieldContext request_body queryResponse =
     (case request_summary ML_COMMONS_API_PREFIX config client generateFieldContext
             request_body queryResponse of
        (Inl e, calls) \<Rightarrow> (Inl e, calls)
      | (Inr summaryRequest, calls) \<Rightarrow> (summarize_result summaryRequest, calls))"

text \<open>Lines 119 to 177: the response and the calls made.\<close>

definition summarize ::
  "jsstring \<Rightarrow> query_assist \<Rightarrow> ('m, 'd) opensearch_client \<Rightarrow> ('m \<Rightarrow> 'd \<Rightarrow> js_error + jsstring)
   \<Rightarrow> summarize_body \<Rightarrow> http_response \<times> call list" where
  "summarize ML_COMMONS_API_PREFIX config client generateFieldContext request_body =
     (if \<not> truthy (response_summary_agent_id config) \<or> \<not> truthy (error_summary_agent_id config)
      then (response_custom 400 (Text (Message summary_agent_missing)), [])
      else
        let queryResponse = JSON_stringify_string (response request_body)
        in (case summarize_try ML_COMMONS_API_PREFIX config client generateFieldContext
                   request_body queryResponse of
              (Inl error, calls) \<Rightarrow> (error_response error, calls)
            | (Inr ok, calls) \<Rightarrow> (ok, calls)))"

text \<open>
  The two routes: the handler runs on a body that passes \<^verbatim>\<open>validate\<close>; on any
  other body the router answers by itself and the handler is not called (\<open>None\<close>).
\<close>

definition generate_ppl_route ::
  "jsstring \<Rightarrow> query_assist \<Rightarrow> ('m, 'd) opensearch_client \<Rightarrow> json \<Rightarrow> (http_response \<times> call list) option" where
  "generate_ppl_route ML_COMMONS_API_PREFIX config client raw_body =
     map_option (generate_ppl ML_COMMONS_API_PREFIX config client) (validate_generate_body raw_body)"

definition summarize_route ::
  "jsstring \<Rightarrow> query_assist \<Rightarrow> ('m, 'd) opensearch_client \<Rightarrow> ('m \<Rightarrow> 'd \<Rightarrow> js_error + jsstring)
   \<Rightarrow> json \<Rightarrow> (http_response \<times> call list) option" where
  "summarize_route ML_COMMONS_API_PREFIX config client generateFieldContext raw_body =
     map_option (summarize ML_COMMONS_API_PREFIX config client generateFieldContext)
       (validate_summarize_body raw_body)"

section \<open>Example inputs\<close>

definition example_config :: query_assist where
  "example_config =
     \<lparr>ppl_agent_id = Some (js ''ppl-agent''),
      response_summary_agent_id = Some (js ''response-agent''),
      error_summary_agent_id = Some (js ''error-agent'')\<rparr>"

definition no_agents :: query_assist where
  "no_agents = \<lparr>ppl_agent_id = None, response_summary_agent_id = None, error_summary_agent_id = None\<rparr>"

definition answer_with :: "jsstring option list \<Rightarrow> agent_response" where
  "answer_with results =
     \<lparr>inference_results = [\<lparr>output = map (\<lambda>r. \<lparr>name = js ''response'', result = r\<rparr>) results\<rparr>]\<rparr>"

definition answering_client :: "agent_response \<Rightarrow> (unit, unit) opensearch_client" where
  "answering_client answer =
     \<lparr>transport_request = (\<lambda>request. Inr answer),
      indices_getMapping = (\<lambda>i. Inr ()),
      search = (\<lambda>i size. Inr ()),
      getMapping_settles_first = True\<rparr>"

definition rejecting_client :: "js_error \<Rightarrow> (unit, unit) opensearch_client" where
  "rejecting_client e =
     \<lparr>transport_request = (\<lambda>request. Inl e),
      indices_getMapping = (\<lambda>i. Inr ()),
      search = (\<lambda>i size. Inr ()),
      getMapping_settles_first = True\<rparr>"

definition example_fields :: "unit \<Rightarrow> unit \<Rightarrow> js_error + jsstring" where
  "example_fields mappings sampleDoc = Inr (js ''- status: long (200)'')"

definition example_question :: generate_body where
  "example_question = \<lparr>index = js ''logs'', question = js ''how many errors''\<rparr>"

definition example_summary_request :: "bool \<Rightarrow> summarize_body" where
  "example_summary_request is_error =
     \<lparr>index = js ''logs'', question = js ''how many errors'',
      query = Some (js ''source = logs''), response = js ''42'', isError = is_error\<rparr>"

text \<open>
  The result of the PPL agent in the example of C1: a JSON text whose string holds
  the escapes \<^verbatim>\<open>\r\n\<close>; the same text with a raw carriage return and line feed
  inside the string; and the string the first one denotes.
\<close>

definition example_ppl_json :: jsstring where
  \<open>example_ppl_json =
     js ''{"ppl": "source '' @ [0x5C, 0x72, 0x5C, 0x6E]
       @ js '' with SPAN(x) and `ticks` and ISNOTNULL(y)"}''\<close>

definition example_ppl_json_raw :: jsstring where
  \<open>example_ppl_json_raw =
     js ''{"ppl": "source '' @ [0x0D, 0x0A]
       @ js '' with SPAN(x) and `ticks` and ISNOTNULL(y)"}''\<close>

definition example_ppl :: jsstring where
  "example_ppl = js ''source '' @ [0x0D, 0x0A] @ js '' with SPAN(x) and `ticks` and ISNOTNULL(y)''"

text \<open>A result of the PPL agent that spells the function in mixed case.\<close>

definition mixed_case_ppl_json :: jsstring where
  \<open>mixed_case_ppl_json = js ''{"ppl": "where IsNotNull(y)"}''\<close>

text \<open>A request body for the summarize route, before validation, with any \<^verbatim>\<open>response\<close>.\<close>

definition raw_summary_request :: "json \<Rightarrow> json" where
  "raw_summary_request response_value =
     JObject [(js ''index'', JString (js ''logs'')),
              (js ''question'', JString (js ''how many errors'')),
              (js ''query'', JString (js ''source = logs'')),
              (js ''response'', response_value),
              (js ''isError'', JBool False)]"

text \<open>An answer of a summary agent: a summary and the text with the suggestions.\<close>

definition summary_answer :: "jsstring \<Rightarrow> agent_response" where
  "summary_answer text = answer_with [Some (js ''All good.''), Some text]"

section \<open>Properties of the generate-query handler\<close>

text \<open>
  C4. When the PPL agent identifier is absent from the configuration, the
  generate-query handler answers 400 with the fixed message and makes no call on the
  client.
\<close>

theorem generate_ppl_unconfigured:
  assumes "ppl_agent_id config = None"
  shows "generate_ppl ML_COMMONS_API_PREFIX config client request_body =
           (\<lparr>statusCode = 400, body = Text (Message ppl_agent_missing)\<rparr>, [])"
  using assms by (simp add: generate_ppl_def truthy_def response_custom_def)

theorem generate_ppl_unconfigured_witness:
  "ppl_agent_id no_agents = None \<and>
   generate_ppl (js ''/_plugins/_ml'') no_agents (answering_client (answer_with [])) example_question =
     (\<lparr>statusCode = 400, body = Text (Message ppl_agent_missing)\<rparr>, [])"
proof -
  have h: "ppl_agent_id no_agents = None" by (simp add: no_agents_def)
  show ?thesis using h generate_ppl_unconfigured [OF h] by simp
qed

lemma first_result_eq:
  assumes "element (inference_results answer) 0 = Some inference"
    and "element (output inference) 0 = Some out"
  shows "first_result answer = Inr (result out)"
  using assms by (simp add: first_result_def)

lemma generate_ppl_answered:
  assumes "truthy (ppl_agent_id config)"
    and "transport_request client (ppl_agent_request ML_COMMONS_API_PREFIX config request_body) = Inr answer"
  shows "generate_ppl ML_COMMONS_API_PREFIX config client request_body =
           (case generate_ppl_result answer of Inl error \<Rightarrow> error_response error | Inr ok \<Rightarrow> ok,
            [TransportRequest (ppl_agent_request ML_COMMONS_API_PREFIX config request_body)])"
  using assms by (simp add: generate_ppl_def generate_ppl_try_def Let_def split: sum.splits)




section \<open>Properties of both handlers\<close>

lemma summarize_answered:
  assumes "truthy (response_summary_agent_id config)" and "truthy (error_summary_agent_id config)"
    and "fst (request_summary ML_COMMONS_API_PREFIX config client generateFieldContext request_body
                (JSON_stringify_string (response request_body))) = Inr answer"
  shows "fst (summarize ML_COMMONS_API_PREFIX config client generateFieldContext request_body) =
           (case summarize_result answer of Inl error \<Rightarrow> error_response error | Inr ok \<Rightarrow> ok)"
proof -
  obtain r calls where rs:
    "request_summary ML_COMMONS_API_PREFIX config client generateFieldContext request_body
       (JSON_stringify_string (response request_body)) = (r, calls)"
    by (cases "request_summary ML_COMMONS_API_PREFIX config client generateFieldContext request_body
       (JSON_stringify_string (response request_body))")
  with assms(3) have "r = Inr answer" by simp
  with rs assms(1,2) show ?thesis
    by (simp add: summarize_def summarize_try_def Let_def split: sum.splits)
qed

text \<open>
  C9. An empty string at \<^verbatim>\<open>inference_results[0].output[0].result\<close> is treated
  as an absent result: the generate-query handler answers 500 with
  \<^verbatim>\<open>Generated PPL query not found.\<close> and the summarize handler answers 500 with
  \<^verbatim>\<open>Generated summary not found.\<close>
\<close>

theorem empty_result_counts_as_missing:
  assumes "element (inference_results answer) 0 = Some inference"
    and "element (output inference) 0 = Some out"
    and "result out = Some []"
  shows "(truthy (ppl_agent_id config) \<longrightarrow>
          transport_request client (ppl_agent_request ML_COMMONS_API_PREFIX config question_body) = Inr answer \<longrightarrow>
          fst (generate_ppl ML_COMMONS_API_PREFIX config client question_body) =
            \<lparr>statusCode = 500, body = Text (Message (js ''Generated PPL query not found.''))\<rparr>)
       \<and> (truthy (response_summary_agent_id config) \<longrightarrow> truthy (error_summary_agent_id config) \<longrightarrow>
          fst (request_summary ML_COMMONS_API_PREFIX config client generateFieldContext summary_body
                 (JSON_stringify_string (response summary_body))) = Inr answer \<longrightarrow>
          fst (summarize ML_COMMONS_API_PREFIX config client generateFieldContext summary_body) =
            \<lparr>statusCode = 500, body = Text (Message (js ''Generated summary not found.''))\<rparr>)"
proof -
  have r: "first_result answer = Inr (Some [])"
    using first_result_eq [OF assms(1) assms(2)] assms(3) by simp
  have g: "generate_ppl_result answer = Inl (new_Error (js ''Generated PPL query not found.''))"
    using r by (simp add: generate_ppl_result_def truthy_def)
  have s: "summarize_result answer = Inl (new_Error (js ''Generated summary not found.''))"
    using r by (simp add: summarize_result_def truthy_def)
  show ?thesis
  proof (intro conjI impI)
    assume "truthy (ppl_agent_id config)"
      and "transport_request client (ppl_agent_request ML_COMMONS_API_PREFIX config question_body) = Inr answer"
    then show "fst (generate_ppl ML_COMMONS_API_PREFIX config client question_body) =
            \<lparr>statusCode = 500, body = Text (Message (js ''Generated PPL query not found.''))\<rparr>"
      using generate_ppl_answered [of config client ML_COMMONS_API_PREFIX question_body answer] g
      by (simp add: error_response_def new_Error_def response_custom_def)
  next
    assume "truthy (response_summary_agent_id config)" and "truthy (error_summary_agent_id config)"
      and "fst (request_summary ML_COMMONS_API_PREFIX config client generateFieldContext summary_body
                 (JSON_stringify_string (response summary_body))) = Inr answer"
    then show "fst (summarize ML_COMMONS_API_PREFIX config client generateFieldContext summary_body) =
            \<lparr>statusCode = 500, body = Text (Message (js ''Generated summary not found.''))\<rparr>"
      using summarize_answered [of config ML_COMMONS_API_PREFIX client generateFieldContext summary_body answer] s
      by (simp add: error_response_def new_Error_def response_custom_def)
  qed
qed

lemma example_config_truthy:
  "truthy (ppl_agent_id example_config)"
  "truthy (response_summary_agent_id example_config)"
  "truthy (error_summary_agent_id example_config)"
  by (simp_all add: example_config_def truthy_def js_def)

lemma request_summary_answering:
  "fst (request_summary p config (answering_client answer) example_fields b q) = Inr answer"
  by (simp add: request_summary_def answering_client_def promise_all_def example_fields_def Let_def)

theorem empty_result_counts_as_missing_witness:
  "fst (generate_ppl (js ''/_plugins/_ml'') example_config (answering_client (answer_with [Some []])) example_question) =
     \<lparr>statusCode = 500, body = Text (Message (js ''Generated PPL query not found.''))\<rparr>
   \<and> fst (summarize (js ''/_plugins/_ml'') example_config (answering_client (answer_with [Some []])) example_fields
            (example_summary_request True)) =
     \<lparr>statusCode = 500, body = Text (Message (js ''Generated summary not found.''))\<rparr>
   \<and> fst (summarize (js ''/_plugins/_ml'') example_config (answering_client (answer_with [Some []])) example_fields
            (example_summary_request False)) =
     \<lparr>statusCode = 500, body = Text (Message (js ''Generated summary not found.''))\<rparr>"
proof -
  have h1: "element (inference_results (answer_with [Some []])) 0 = Some \<lparr>output = [\<lparr>name = js ''response'', result = Some []\<rparr>]\<rparr>"
    by (simp add: answer_with_def element_def)
  have h2: "element (output \<lparr>output = [\<lparr>name = js ''response'', result = Some []\<rparr>]\<rparr>) 0 = Some \<lparr>name = js ''response'', result = Some []\<rparr>"
    by (simp add: element_def)
  have h3: "result \<lparr>name = js ''response'', result = Some []\<rparr> = Some []"
    by simp
  have t: "transport_request (answering_client (answer_with [Some []]))
     (ppl_agent_request (js ''/_plugins/_ml'') example_config example_question) = Inr (answer_with [Some []])"
    by (simp add: answering_client_def)
  show ?thesis
    using empty_result_counts_as_missing [OF h1 h2 h3, of example_config "answering_client (answer_with [Some []])"
            "js ''/_plugins/_ml''" example_question example_fields "example_summary_request True"]
          empty_result_counts_as_missing [OF h1 h2 h3, of example_config "answering_client (answer_with [Some []])"
            "js ''/_plugins/_ml''" example_question example_fields "example_summary_request False"]
          t example_config_truthy request_summary_answering
    by simp
qed


text \<open>
  C5 (amended). In either handler, with its agents configured, an error thrown inside
  the \<^verbatim>\<open>try\<close> block becomes the response: the status is the \<^verbatim>\<open>statusCode\<close>
  the error carries when it carries one that is not 0, else 500, and the body is the
  error's message. A rejection of the agent call that carries 503 gives a 503 response
  with that message.
\<close>

theorem thrown_error_becomes_response:
  "(truthy (ppl_agent_id config) \<longrightarrow>
    fst (generate_ppl_try ML_COMMONS_API_PREFIX config client question_body) = Inl error \<longrightarrow>
    fst (generate_ppl ML_COMMONS_API_PREFIX config client question_body) =
      \<lparr>statusCode = (case error_statusCode error of
                       None \<Rightarrow> 500
                     | Some code \<Rightarrow> if code = 0 then 500 else code),
       body = Text (error_message error)\<rparr>)
 \<and> (truthy (response_summary_agent_id config) \<longrightarrow> truthy (error_summary_agent_id config) \<longrightarrow>
    fst (summarize_try ML_COMMONS_API_PREFIX config client generateFieldContext summary_body
           (JSON_stringify_string (response summary_body))) = Inl error \<longrightarrow>
    fst (summarize ML_COMMONS_API_PREFIX config client generateFieldContext summary_body) =
      \<lparr>statusCode = (case error_statusCode error of
                       None \<Rightarrow> 500
                     | Some code \<Rightarrow> if code = 0 then 500 else code),
       body = Text (error_message error)\<rparr>)
 \<and> (truthy (ppl_agent_id config) \<longrightarrow>
    transport_request client (ppl_agent_request ML_COMMONS_API_PREFIX config question_body) =
      Inl (Thrown (Some 503) text) \<longrightarrow>
    fst (generate_ppl ML_COMMONS_API_PREFIX config client question_body) =
      \<lparr>statusCode = 503, body = Text text\<rparr>)"
proof (intro conjI impI)
  assume "truthy (ppl_agent_id config)"
    and "fst (generate_ppl_try ML_COMMONS_API_PREFIX config client question_body) = Inl error"
  then show "fst (generate_ppl ML_COMMONS_API_PREFIX config client question_body) =
      \<lparr>statusCode = (case error_statusCode error of
                       None \<Rightarrow> 500
                     | Some code \<Rightarrow> if code = 0 then 500 else code),
       body = Text (error_message error)\<rparr>"
    by (cases "generate_ppl_try ML_COMMONS_API_PREFIX config client question_body")
      (simp add: generate_ppl_def error_response_def response_custom_def)
next
  assume "truthy (response_summary_agent_id config)" and "truthy (error_summary_agent_id config)"
    and "fst (summarize_try ML_COMMONS_API_PREFIX config client generateFieldContext summary_body
           (JSON_stringify_string (response summary_body))) = Inl error"
  then show "fst (summarize ML_COMMONS_API_PREFIX config client generateFieldContext summary_body) =
      \<lparr>statusCode = (case error_statusCode error of
                       None \<Rightarrow> 500
                     | Some code \<Rightarrow> if code = 0 then 500 else code),
       body = Text (error_message error)\<rparr>"
    by (cases "summarize_try ML_COMMONS_API_PREFIX config client generateFieldContext summary_body
           (JSON_stringify_string (response summary_body))")
      (simp add: summarize_def error_response_def response_custom_def Let_def)
next
  assume "truthy (ppl_agent_id config)"
    and "transport_request client (ppl_agent_request ML_COMMONS_API_PREFIX config question_body) =
      Inl (Thrown (Some 503) text)"
  then show "fst (generate_ppl ML_COMMONS_API_PREFIX config client question_body) =
      \<lparr>statusCode = 503, body = Text text\<rparr>"
    by (simp add: generate_ppl_def generate_ppl_try_def error_response_def response_custom_def Let_def)
qed

lemma generate_ppl_try_rejecting:
  "generate_ppl_try p config (rejecting_client e) b = (Inl e, [TransportRequest (ppl_agent_request p config b)])"
  by (simp add: generate_ppl_try_def rejecting_client_def Let_def)

lemma summarize_try_rejecting:
  "\<not> isError b \<Longrightarrow> fst (summarize_try p config (rejecting_client e) g b q) = Inl e"
  by (simp add: summarize_try_def request_summary_def rejecting_client_def Let_def)

theorem thrown_error_becomes_response_witness:
  "fst (generate_ppl (js ''/_plugins/_ml'') example_config
         (rejecting_client (Thrown (Some 503) (Message (js ''Service Unavailable'')))) example_question) =
     \<lparr>statusCode = 503, body = Text (Message (js ''Service Unavailable''))\<rparr>
   \<and> fst (summarize (js ''/_plugins/_ml'') example_config
         (rejecting_client (Thrown (Some 503) (Message (js ''Service Unavailable'')))) example_fields
         (example_summary_request False)) =
     \<lparr>statusCode = 503, body = Text (Message (js ''Service Unavailable''))\<rparr>"
proof -
  have h: "\<not> isError (example_summary_request False)"
    by (simp add: example_summary_request_def)
  have t: "transport_request (rejecting_client (Thrown (Some 503) (Message (js ''Service Unavailable''))))
             (ppl_agent_request (js ''/_plugins/_ml'') example_config example_question) =
           Inl (Thrown (Some 503) (Message (js ''Service Unavailable'')))"
    by (simp add: rejecting_client_def)
  show ?thesis
    using thrown_error_becomes_response [of example_config "js ''/_plugins/_ml''"
            "rejecting_client (Thrown (Some 503) (Message (js ''Service Unavailable'')))" example_question
            "Thrown (Some 503) (Message (js ''Service Unavailable''))" example_fields
            "example_summary_request False" "Message (js ''Service Unavailable'')"]
          example_config_truthy generate_ppl_try_rejecting summarize_try_rejecting [OF h] t
    by simp
qed

text \<open>
  C5 as stated fails for an error that carries the \<^verbatim>\<open>statusCode\<close> 0: the
  response has status 500.
\<close>

theorem status_code_zero_counterexample:
  "error_statusCode (Thrown (Some 0) (Message (js ''no status''))) = Some 0
   \<and> fst (generate_ppl (js ''/_plugins/_ml'') example_config
           (rejecting_client (Thrown (Some 0) (Message (js ''no status'')))) example_question) =
     \<lparr>statusCode = 500, body = Text (Message (js ''no status''))\<rparr>"
  using example_config_truthy(1)
  by (simp add: generate_ppl_def generate_ppl_try_rejecting error_response_def response_custom_def)

section \<open>Properties of the summarize handler\<close>




section \<open>The example of the generate-query handler\<close>

lemma example_ppl_json_parsed:
  "JSON_parse example_ppl_json = Inr (JObject [(js ''ppl'', JString example_ppl)])"
  by code_simp

lemma example_ppl_json_raw_parsed: "JSON_parse example_ppl_json_raw = Inl SyntaxError"
  by code_simp

lemma example_ppl_cleaned:
  "clean_ppl example_ppl = js ''source    with span(x) and ticks and isnotnull(y)''"
  by code_simp

lemma example_ppl_json_nonempty: "example_ppl_json \<noteq> []" "example_ppl_json_raw \<noteq> []"
  by (simp_all add: example_ppl_json_def example_ppl_json_raw_def js_def)

lemma ppl_of_example: "ppl_of (JObject [(js ''ppl'', JString s)]) = Inr s"
  by (simp add: ppl_of_def own_property_def)

text \<open>
  C1 (amended). With a configured PPL agent, when the agent's result is the JSON text
  \<^verbatim>\<open>{"ppl": "source \r\n with SPAN(x) and `ticks` and ISNOTNULL(y)"}\<close>, whose
  escapes denote a carriage return and a line feed, the generate-query handler
  answers 200 with the body \<^verbatim>\<open>source    with span(x) and ticks and isnotnull(y)\<close>:
  four spaces after \<^verbatim>\<open>source\<close>, one for each of the two original spaces, one for
  the carriage return and one for the line feed.
\<close>

theorem generate_ppl_example:
  assumes "truthy (ppl_agent_id config)"
    and "transport_request client (ppl_agent_request ML_COMMONS_API_PREFIX config request_body) = Inr answer"
    and "element (inference_results answer) 0 = Some inference"
    and "element (output inference) 0 = Some out"
    and "result out = Some example_ppl_json"
  shows "fst (generate_ppl ML_COMMONS_API_PREFIX config client request_body) =
           \<lparr>statusCode = 200,
            body = Text (Message (js ''source    with span(x) and ticks and isnotnull(y)''))\<rparr>"
proof -
  have "first_result answer = Inr (Some example_ppl_json)"
    using first_result_eq [OF assms(3) assms(4)] assms(5) by simp
  then have "generate_ppl_result answer =
      Inr (response_ok (Text (Message (js ''source    with span(x) and ticks and isnotnull(y)''))))"
    by (simp add: generate_ppl_result_def truthy_def example_ppl_json_nonempty
          example_ppl_json_parsed ppl_of_example example_ppl_cleaned)
  then show ?thesis
    using generate_ppl_answered [OF assms(1) assms(2)] by (simp add: response_ok_def)
qed


theorem generate_ppl_example_witness:
  "fst (generate_ppl (js ''/_plugins/_ml'') example_config
          (answering_client (answer_with [Some example_ppl_json])) example_question) =
     \<lparr>statusCode = 200,
      body = Text (Message (js ''source    with span(x) and ticks and isnotnull(y)''))\<rparr>"
proof -
  have h2: "transport_request (answering_client (answer_with [Some example_ppl_json]))
     (ppl_agent_request (js ''/_plugins/_ml'') example_config example_question) =
       Inr (answer_with [Some example_ppl_json])"
    by (simp add: answering_client_def)
  have h3: "element (inference_results (answer_with [Some example_ppl_json])) 0 =
      Some \<lparr>output = [\<lparr>name = js ''response'', result = Some example_ppl_json\<rparr>]\<rparr>"
    by (simp add: answer_with_def element_def)
  have h4: "element (output \<lparr>output = [\<lparr>name = js ''response'', result = Some example_ppl_json\<rparr>]\<rparr>) 0 =
      Some \<lparr>name = js ''response'', result = Some example_ppl_json\<rparr>"
    by (simp add: element_def)
  have h5: "result \<lparr>name = js ''response'', result = Some example_ppl_json\<rparr> = Some example_ppl_json"
    by simp
  show ?thesis
    by (rule generate_ppl_example [OF example_config_truthy(1) h2 h3 h4 h5])
qed

lemma example_bodies_differ:
  "js ''source    with span(x) and ticks and isnotnull(y)'' \<noteq>
   js ''source  with span(x) and ticks and isnotnull(y)''"
  by (simp add: js_def)

lemma first_result_answer_with: "first_result (answer_with (r # rs)) = Inr r"
  by (simp add: first_result_def answer_with_def element_def)

text \<open>
  C1 as stated fails: on that result the body is not
  \<^verbatim>\<open>source  with span(x) and ticks and isnotnull(y)\<close> with two spaces; and when
  the carriage return and the line feed stand unescaped in the JSON text,
  \<^verbatim>\<open>JSON.parse\<close> throws and the answer is 500.
\<close>

theorem generate_ppl_example_counterexample:
  "fst (generate_ppl (js ''/_plugins/_ml'') example_config
          (answering_client (answer_with [Some example_ppl_json])) example_question) \<noteq>
     \<lparr>statusCode = 200,
      body = Text (Message (js ''source  with span(x) and ticks and isnotnull(y)''))\<rparr>
   \<and> fst (generate_ppl (js ''/_plugins/_ml'') example_config
          (answering_client (answer_with [Some example_ppl_json_raw])) example_question) =
     \<lparr>statusCode = 500, body = Text SyntaxError_message\<rparr>"
proof -
  have a: "generate_ppl_result (answer_with [Some example_ppl_json]) =
      Inr (response_ok (Text (Message (js ''source    with span(x) and ticks and isnotnull(y)''))))"
    by (simp add: generate_ppl_result_def first_result_answer_with truthy_def example_ppl_json_nonempty
          example_ppl_json_parsed ppl_of_example example_ppl_cleaned)
  have b: "generate_ppl_result (answer_with [Some example_ppl_json_raw]) = Inl SyntaxError"
    by (simp add: generate_ppl_result_def first_result_answer_with truthy_def example_ppl_json_nonempty
          example_ppl_json_raw_parsed)
  show ?thesis
    using example_config_truthy(1) a b
    by (simp add: generate_ppl_def generate_ppl_try_def answering_client_def Let_def response_ok_def
          error_response_def response_custom_def SyntaxError_def example_bodies_differ)
qed


section \<open>The rewriting of \<^verbatim>\<open>ISNOTNULL\<close>\<close>

lemma prefix_append_cut:
  assumes "u \<noteq> []" and "w \<noteq> []" and "hd w \<notin> set (tl p)" and "prefix p (u @ w)"
  shows "prefix p u"
proof -
  from assms(4) consider "prefix p u" | us where "p = u @ us" "prefix us w"
    by (auto simp: prefix_append)
  then show ?thesis
  proof cases
    case 1
    then show ?thesis .
  next
    case 2
    show ?thesis
    proof (cases us)
      case Nil
      with 2 show ?thesis by simp
    next
      case (Cons x xs)
      with 2(2) assms(2) have "x = hd w"
        by (cases w) auto
      moreover from assms(1) 2(1) Cons have "x \<in> set (tl p)"
        by (cases u) auto
      ultimately show ?thesis using assms(3) by simp
    qed
  qed
qed

lemma drop_append_le: "n \<le> length xs \<Longrightarrow> drop n (xs @ ys) = drop n xs @ ys"
  by simp

lemma prefix_append_iff_cut:
  assumes "u \<noteq> []" and "w \<noteq> []" and "hd w \<notin> set (tl p)"
  shows "prefix p (u @ w) \<longleftrightarrow> prefix p u"
  using prefix_append_cut [OF assms] by (auto simp: prefix_append)

lemma replace_literal_pat_first:
  assumes "pat \<noteq> []"
  shows "replace_literal pat rep (pat @ v) = rep @ replace_literal pat rep v"
proof -
  from assms obtain p ps where pat: "pat = p # ps" by (cases pat) auto
  have "replace_literal pat rep (p # (ps @ v)) = rep @ replace_literal pat rep (drop (length pat) (p # (ps @ v)))"
    using assms by (simp add: pat)
  then show ?thesis by (simp add: pat)
qed

lemma replace_literal_around:
  assumes "pat \<noteq> []" and "hd pat \<notin> set (tl pat)"
  shows "replace_literal pat rep (u @ pat @ v) =
           replace_literal pat rep u @ rep @ replace_literal pat rep v"
  using assms
proof (induction pat rep u rule: replace_literal.induct)
  case (1 pat rep)
  then show ?case by (simp add: replace_literal_pat_first)
next
  case (2 pat rep c cs)
  have iff: "prefix pat ((c # cs) @ pat @ v) \<longleftrightarrow> prefix pat (c # cs)"
    using 2(3,4) by (intro prefix_append_iff_cut) auto
  show ?case
  proof (cases "prefix pat (c # cs)")
    case True
    then have "length pat \<le> length (c # cs)" by (rule prefix_length_le)
    then have d: "drop (length pat) ((c # cs) @ pat @ v) = drop (length pat) (c # cs) @ pat @ v"
      by (rule drop_append_le)
    have "replace_literal pat rep ((c # cs) @ pat @ v) =
            rep @ replace_literal pat rep (drop (length pat) ((c # cs) @ pat @ v))"
      using True iff 2(3) by simp
    also have "\<dots> = rep @ replace_literal pat rep (drop (length pat) (c # cs)) @ rep @ replace_literal pat rep v"
      using 2(1) [OF _ 2(3) 2(4)] True 2(3) by (simp only: d) simp
    finally show ?thesis using True 2(3) by simp
  next
    case False
    then have "replace_literal pat rep ((c # cs) @ pat @ v) = c # replace_literal pat rep (cs @ pat @ v)"
      using iff by simp
    then show ?thesis using False 2(2) [OF _ 2(3) 2(4)] by simp
  qed
qed

lemma replace_span_lower_first:
  "replace_span prev_word (js ''isnotnull'' @ v) = js ''isnotnull'' @ replace_span True v"
  by (simp add: js_def is_word_char_def)

lemma replace_span_around:
  "replace_span prev_word (u @ js ''isnotnull'' @ v) =
     replace_span prev_word u @ js ''isnotnull'' @ replace_span True v"
proof (induction prev_word u rule: replace_span.induct)
  case (1 prev_word)
  show ?case by (simp add: replace_span_lower_first)
next
  case (2 prev_word c cs)
  have iff: "prefix (js ''SPAN('') ((c # cs) @ js ''isnotnull'' @ v) \<longleftrightarrow> prefix (js ''SPAN('') (c # cs)"
    by (intro prefix_append_iff_cut) (simp_all add: js_def)
  show ?case
  proof (cases "\<not> prev_word \<and> prefix (js ''SPAN('') (c # cs)")
    case True
    then have "length (js ''SPAN('') \<le> length (c # cs)" by (intro prefix_length_le) simp
    then have "5 \<le> length (c # cs)" by (simp add: js_def)
    then have d: "drop 5 ((c # cs) @ js ''isnotnull'' @ v) = drop 5 (c # cs) @ js ''isnotnull'' @ v"
      by (rule drop_append_le)
    have "replace_span prev_word ((c # cs) @ js ''isnotnull'' @ v) =
            js ''span('' @ replace_span False (drop 5 ((c # cs) @ js ''isnotnull'' @ v))"
      using True iff by simp
    also have "\<dots> = js ''span('' @ replace_span False (drop 5 (c # cs)) @ js ''isnotnull'' @ replace_span True v"
      using 2(1) True by (simp only: d) simp
    finally show ?thesis using True by simp
  next
    case False
    have "replace_span prev_word ((c # cs) @ js ''isnotnull'' @ v) =
        c # replace_span (is_word_char c) (cs @ js ''isnotnull'' @ v)"
      using iff False by (cases prev_word) simp_all
    moreover have "replace_span prev_word (c # cs) = c # replace_span (is_word_char c) cs"
      using False by (cases prev_word) simp_all
    ultimately show ?thesis using 2(2) [OF False] by simp
  qed
qed

lemma remove_backticks_around:
  "remove_backticks (u @ js ''isnotnull'' @ v) = remove_backticks u @ js ''isnotnull'' @ remove_backticks v"
  by (simp add: remove_backticks_def js_def)

lemma replace_literal_absent:
  "\<forall>u v. s \<noteq> u @ pat @ v \<Longrightarrow> replace_literal pat rep s = s"
proof (induction pat rep s rule: replace_literal.induct)
  case (1 pat rep)
  show ?case by simp
next
  case (2 pat rep c cs)
  have n: "\<not> prefix pat (c # cs)"
  proof
    assume "prefix pat (c # cs)"
    then obtain v where "c # cs = [] @ pat @ v"
      by (auto simp: prefix_def)
    with 2(3) show False by blast
  qed
  have "\<forall>u v. cs \<noteq> u @ pat @ v"
  proof (intro allI notI)
    fix u v
    assume "cs = u @ pat @ v"
    then have "c # cs = (c # u) @ pat @ v" by simp
    with 2(3) show False by blast
  qed
  with 2(2) n show ?case by simp
qed

text \<open>
  C2 (amended). The clean-up rewrites \<^verbatim>\<open>ISNOTNULL\<close> in exactly this upper-case
  spelling: every occurrence of \<^verbatim>\<open>ISNOTNULL\<close> in the newline-collapsed, trimmed
  ppl string appears as \<^verbatim>\<open>isnotnull\<close> in the returned body, between the cleaned
  text before it and the cleaned text after it; and on a string without the
  upper-case spelling the rule changes nothing, only the backticks and \<^verbatim>\<open>SPAN(\<close>
  are rewritten.
\<close>

theorem clean_ppl_rewrites_upper_case_isnotnull:
  "(trim (replace_newlines ppl) = u @ js ''ISNOTNULL'' @ v \<longrightarrow>
    clean_ppl ppl =
      replace_span False (remove_backticks (replace_isnotnull u))
      @ js ''isnotnull''
      @ replace_span True (remove_backticks (replace_isnotnull v)))
 \<and> ((\<forall>before after. trim (replace_newlines other) \<noteq> before @ js ''ISNOTNULL'' @ after) \<longrightarrow>
    clean_ppl other = replace_span False (remove_backticks (trim (replace_newlines other))))"
proof (intro conjI impI)
  assume a: "trim (replace_newlines ppl) = u @ js ''ISNOTNULL'' @ v"
  have "replace_isnotnull (u @ js ''ISNOTNULL'' @ v) =
          replace_isnotnull u @ js ''isnotnull'' @ replace_isnotnull v"
    unfolding replace_isnotnull_def
    by (rule replace_literal_around) (simp_all add: js_def)
  then show "clean_ppl ppl =
      replace_span False (remove_backticks (replace_isnotnull u))
      @ js ''isnotnull''
      @ replace_span True (remove_backticks (replace_isnotnull v))"
    by (simp add: clean_ppl_def a remove_backticks_around replace_span_around)
next
  assume "\<forall>before after. trim (replace_newlines other) \<noteq> before @ js ''ISNOTNULL'' @ after"
  then have "replace_isnotnull (trim (replace_newlines other)) = trim (replace_newlines other)"
    unfolding replace_isnotnull_def by (rule replace_literal_absent)
  then show "clean_ppl other = replace_span False (remove_backticks (trim (replace_newlines other)))"
    by (simp add: clean_ppl_def)
qed

theorem clean_ppl_rewrites_upper_case_isnotnull_witness:
  "clean_ppl (js '' where ISNOTNULL(`a`) and ISNOTNULL(b) '') = js ''where isnotnull(a) and isnotnull(b)''
   \<and> clean_ppl (js '' where `a` = 1 and IsNotNull(b) '') =
       replace_span False (remove_backticks (trim (replace_newlines (js '' where `a` = 1 and IsNotNull(b) ''))))"
proof -
  note t = clean_ppl_rewrites_upper_case_isnotnull
    [where ppl = "js '' where ISNOTNULL(`a`) and ISNOTNULL(b) ''" and u = "js ''where ''"
       and v = "js ''(`a`) and ISNOTNULL(b)''" and other = "js '' where `a` = 1 and IsNotNull(b) ''"]
  have h: "trim (replace_newlines (js '' where ISNOTNULL(`a`) and ISNOTNULL(b) '')) =
     js ''where '' @ js ''ISNOTNULL'' @ js ''(`a`) and ISNOTNULL(b)''"
    by code_simp
  have r: "replace_span False (remove_backticks (replace_isnotnull (js ''where '')))
           @ js ''isnotnull''
           @ replace_span True (remove_backticks (replace_isnotnull (js ''(`a`) and ISNOTNULL(b)''))) =
         js ''where isnotnull(a) and isnotnull(b)''"
    by code_simp
  have o: "trim (replace_newlines (js '' where `a` = 1 and IsNotNull(b) '')) = js ''where `a` = 1 and IsNotNull(b)''"
    by code_simp
  have n: "\<forall>before after. trim (replace_newlines (js '' where `a` = 1 and IsNotNull(b) '')) \<noteq>
             before @ js ''ISNOTNULL'' @ after"
  proof (intro allI notI)
    fix before after
    assume "trim (replace_newlines (js '' where `a` = 1 and IsNotNull(b) '')) = before @ js ''ISNOTNULL'' @ after"
    then have "set (js ''where `a` = 1 and IsNotNull(b)'') = set (before @ js ''ISNOTNULL'' @ after)"
      by (simp only: o)
    moreover have "0x53 \<in> set (before @ js ''ISNOTNULL'' @ after)"
      by (simp add: js_def)
    moreover have "0x53 \<notin> set (js ''where `a` = 1 and IsNotNull(b)'')"
      by (simp add: js_def)
    ultimately show False by simp
  qed
  from t h have "clean_ppl (js '' where ISNOTNULL(`a`) and ISNOTNULL(b) '') =
      replace_span False (remove_backticks (replace_isnotnull (js ''where '')))
           @ js ''isnotnull''
           @ replace_span True (remove_backticks (replace_isnotnull (js ''(`a`) and ISNOTNULL(b)'')))"
    by blast
  then have "clean_ppl (js '' where ISNOTNULL(`a`) and ISNOTNULL(b) '') = js ''where isnotnull(a) and isnotnull(b)''"
    by (simp only: r)
  moreover from t n have "clean_ppl (js '' where `a` = 1 and IsNotNull(b) '') =
       replace_span False (remove_backticks (trim (replace_newlines (js '' where `a` = 1 and IsNotNull(b) ''))))"
    by blast
  ultimately show ?thesis by (rule conjI)
qed

lemma mixed_case_ppl_json_parsed:
  "JSON_parse mixed_case_ppl_json = Inr (JObject [(js ''ppl'', JString (js ''where IsNotNull(y)''))])"
  by code_simp

lemma mixed_case_ppl_cleaned: "clean_ppl (js ''where IsNotNull(y)'') = js ''where IsNotNull(y)''"
  by code_simp

text \<open>
  C2 as stated fails: the spelling \<^verbatim>\<open>IsNotNull\<close> is returned as it came.
\<close>

theorem mixed_case_isnotnull_counterexample:
  "fst (generate_ppl (js ''/_plugins/_ml'') example_config
          (answering_client (answer_with [Some mixed_case_ppl_json])) example_question) =
     \<lparr>statusCode = 200, body = Text (Message (js ''where IsNotNull(y)''))\<rparr>"
proof -
  have n: "mixed_case_ppl_json \<noteq> []"
    by (simp add: mixed_case_ppl_json_def js_def)
  have "generate_ppl_result (answer_with [Some mixed_case_ppl_json]) =
      Inr (response_ok (Text (Message (js ''where IsNotNull(y)''))))"
    by (simp add: generate_ppl_result_def first_result_answer_with truthy_def n
          mixed_case_ppl_json_parsed ppl_of_example mixed_case_ppl_cleaned)
  then show ?thesis
    using example_config_truthy(1)
    by (simp add: generate_ppl_def generate_ppl_try_def answering_client_def Let_def response_ok_def)
qed


section \<open>The \<^verbatim>\<open>response\<close> field of the summarize request\<close>

lemma validate_summarize_body_response:
  assumes "validate_summarize_body raw_body = Some b"
  shows "\<exists>ms. raw_body = JObject ms \<and> own_property ms (js ''response'') = Some (JString (response b))"
proof (cases raw_body)
  case (JObject ms)
  show ?thesis
  proof (cases "own_property ms (js ''response'')")
    case None
    with assms JObject show ?thesis
      by (simp add: validate_summarize_body_def split: option.splits json.splits)
  next
    case (Some v)
    with assms JObject show ?thesis
      by (cases v; cases "own_property ms (js ''query'')")
        (auto simp: validate_summarize_body_def split: option.splits json.splits if_splits)
  qed
qed (use assms in \<open>simp_all add: validate_summarize_body_def\<close>)

lemma response_parameter_lookup:
  "map_of [(js ''index'', a), (js ''question'', b), (js ''query'', c), (js ''response'', d)]
     (js ''response'') = Some d"
  "map_of [(js ''index'', a), (js ''question'', b), (js ''query'', c), (js ''response'', d), (js ''fields'', e)]
     (js ''response'') = Some d"
  by (simp_all add: js_def)

lemma parameters_agent_execute: "parameters (agent_execute p agent ps) = ps"
  by (simp add: agent_execute_def)

lemma request_summary_response_parameter:
  assumes "TransportRequest request \<in> set (snd (request_summary p config client g b q))"
  shows "map_of (parameters request) (js ''response'') = Some (Some q)"
proof (cases "isError b")
  case False
  with assms have "request = response_summary_request p config b q"
    by (simp add: request_summary_def Let_def)
  then show ?thesis
    by (simp only: response_summary_request_def parameters_agent_execute response_parameter_lookup)
next
  case True
  with assms obtain f where "request = error_summary_request p config b q f"
    by (auto simp: request_summary_def Let_def split: sum.splits prod.splits)
  then show ?thesis
    by (simp only: error_summary_request_def parameters_agent_execute response_parameter_lookup)
qed

lemma summarize_calls_eq:
  "snd (summarize p config client g b) = [] \<or>
   snd (summarize p config client g b) =
     snd (request_summary p config client g b (JSON_stringify_string (response b)))"
  by (cases "request_summary p config client g b (JSON_stringify_string (response b))")
    (simp add: summarize_def summarize_try_def Let_def split: sum.splits)

text \<open>
  C3 (amended). The summarize route accepts a request body only when its
  \<^verbatim>\<open>response\<close> field is a string; for every accepted request, each agent request
  the handler makes carries as its \<^verbatim>\<open>response\<close> parameter that string serialised
  by \<^verbatim>\<open>JSON.stringify\<close>.
\<close>

theorem summarize_serialises_string_response:
  assumes "summarize_route ML_COMMONS_API_PREFIX config client generateFieldContext raw_body = Some (reply, calls)"
  shows "\<exists>ms r. raw_body = JObject ms
           \<and> own_property ms (js ''response'') = Some (JString r)
           \<and> (\<forall>request. TransportRequest request \<in> set calls \<longrightarrow>
                 map_of (parameters request) (js ''response'') = Some (Some (JSON_stringify_string r)))"
proof -
  from assms obtain b where v: "validate_summarize_body raw_body = Some b"
    and s: "summarize ML_COMMONS_API_PREFIX config client generateFieldContext b = (reply, calls)"
    by (auto simp: summarize_route_def)
  from validate_summarize_body_response [OF v] obtain ms where
    ms: "raw_body = JObject ms" "own_property ms (js ''response'') = Some (JString (response b))"
    by blast
  have "\<forall>request. TransportRequest request \<in> set calls \<longrightarrow>
          map_of (parameters request) (js ''response'') = Some (Some (JSON_stringify_string (response b)))"
    using summarize_calls_eq [of ML_COMMONS_API_PREFIX config client generateFieldContext b] s
    by (auto dest: request_summary_response_parameter)
  with ms show ?thesis by blast
qed


lemma raw_summary_request_valid:
  "validate_summarize_body (raw_summary_request (JString (js ''42''))) = Some (example_summary_request False)"
  by (simp add: validate_summarize_body_def raw_summary_request_def own_property_def
        example_summary_request_def js_def)

lemma second_result_answer_with_one: "second_result_or_empty (answer_with [r]) = Inr []"
  by (simp add: second_result_or_empty_def answer_with_def element_def)

lemma example_summarize:
  "summarize (js ''/_plugins/_ml'') example_config
       (answering_client (answer_with [Some (js ''All good.'')])) example_fields
       (example_summary_request False) =
     (\<lparr>statusCode = 200, body = SummaryBody (js ''All good.'') []\<rparr>,
      [TransportRequest
         (response_summary_request (js ''/_plugins/_ml'') example_config (example_summary_request False)
            (JSON_stringify_string (js ''42'')))])"
proof -
  have a: "summarize_result (answer_with [Some (js ''All good.'')]) =
      Inr (response_ok (SummaryBody (js ''All good.'') []))"
    by (simp add: summarize_result_def first_result_answer_with second_result_answer_with_one truthy_def js_def)
  have r: "response (example_summary_request False) = js ''42''" "\<not> isError (example_summary_request False)"
    by (simp_all add: example_summary_request_def)
  show ?thesis
    using example_config_truthy a
    by (simp add: summarize_def summarize_try_def request_summary_def answering_client_def Let_def r
          response_ok_def)
qed

theorem summarize_serialises_string_response_witness:
  "summarize_route (js ''/_plugins/_ml'') example_config
       (answering_client (answer_with [Some (js ''All good.'')])) example_fields
       (raw_summary_request (JString (js ''42''))) =
     Some (\<lparr>statusCode = 200, body = SummaryBody (js ''All good.'') []\<rparr>,
           [TransportRequest
              (response_summary_request (js ''/_plugins/_ml'') example_config (example_summary_request False)
                 (JSON_stringify_string (js ''42'')))])
   \<and> (\<exists>ms r. raw_summary_request (JString (js ''42'')) = JObject ms
         \<and> own_property ms (js ''response'') = Some (JString r)
         \<and> (\<forall>request. TransportRequest request \<in>
                 set [TransportRequest
                        (response_summary_request (js ''/_plugins/_ml'') example_config
                           (example_summary_request False) (JSON_stringify_string (js ''42'')))] \<longrightarrow>
               map_of (parameters request) (js ''response'') = Some (Some (JSON_stringify_string r))))"
proof -
  have h: "summarize_route (js ''/_plugins/_ml'') example_config
       (answering_client (answer_with [Some (js ''All good.'')])) example_fields
       (raw_summary_request (JString (js ''42''))) =
     Some (\<lparr>statusCode = 200, body = SummaryBody (js ''All good.'') []\<rparr>,
           [TransportRequest
              (response_summary_request (js ''/_plugins/_ml'') example_config (example_summary_request False)
                 (JSON_stringify_string (js ''42'')))])"
    by (simp add: summarize_route_def raw_summary_request_valid example_summarize)
  show ?thesis
    using h summarize_serialises_string_response [OF h] by (rule conjI)
qed

text \<open>
  C3 as stated fails: a body whose \<^verbatim>\<open>response\<close> is a JSON object does not pass the
  validation of the route, and the handler is not run.
\<close>

theorem structured_response_counterexample:
  "summarize_route (js ''/_plugins/_ml'') example_config
       (answering_client (answer_with [Some (js ''All good.'')])) example_fields
       (raw_summary_request (JObject [(js ''total'', JNumber (js ''42''))])) = None"
  by (simp add: summarize_route_def validate_summarize_body_def raw_summary_request_def
        own_property_def js_def)


section \<open>The suggested questions of the summarize handler\<close>

lemma open_tag_Cons: "open_tag = 0x3C # tl open_tag"
  by (simp add: open_tag_def js_def)

lemma close_tag_Cons: "close_tag = 0x3C # tl close_tag"
  by (simp add: close_tag_def js_def)

lemma not_prefix_open_tag: "c \<noteq> 0x3C \<Longrightarrow> \<not> prefix open_tag (c # cs)"
  by (subst open_tag_Cons) simp

lemma not_prefix_close_tag: "c \<noteq> 0x3C \<Longrightarrow> \<not> prefix close_tag (c # cs)"
  by (subst close_tag_Cons) simp

lemma match_question_other_start: "c \<noteq> 0x3C \<Longrightarrow> match_question (c # cs) = None"
  by (simp add: match_question_def not_prefix_open_tag)

lemma question_matches_skip: "0x3C \<notin> set a \<Longrightarrow> question_matches (a @ s) = question_matches s"
  by (induction a) (simp_all add: match_question_other_start)

lemma question_matches_none: "0x3C \<notin> set s \<Longrightarrow> question_matches s = []"
  using question_matches_skip [of s "[]"] by simp

lemma lazy_group_none: "0x3C \<notin> set s \<Longrightarrow> lazy_group acc s = None"
  by (induction s arbitrary: acc) (simp_all add: not_prefix_close_tag)

lemma lazy_group_at_close_tag: "lazy_group acc (close_tag @ b) = Some (acc, b)"
proof -
  have e: "close_tag @ b = 0x3C # (tl close_tag @ b)"
    by (subst close_tag_Cons) simp
  have "prefix close_tag (0x3C # (tl close_tag @ b))"
    by (simp only: e [symmetric]) simp
  then have "lazy_group acc (0x3C # (tl close_tag @ b)) =
      Some (acc, drop (length close_tag) (0x3C # (tl close_tag @ b)))"
    by simp
  then show ?thesis
    by (simp only: e [symmetric]) simp
qed

lemma lazy_group_finds:
  "0x3C \<notin> set g \<Longrightarrow> \<forall>c\<in>set g. regex_dot_or_newline c \<Longrightarrow>
   lazy_group acc (g @ close_tag @ b) = Some (acc @ g, b)"
  by (induction g arbitrary: acc) (simp_all add: lazy_group_at_close_tag not_prefix_close_tag)

lemma match_question_at_open_tag:
  "match_question (open_tag @ s) =
     (case s of [] \<Rightarrow> None | c # cs \<Rightarrow> if regex_dot_or_newline c then lazy_group [c] cs else None)"
  by (simp add: match_question_def)

lemma question_matches_match:
  assumes "match_question (open_tag @ s) = Some (g, rest)"
  shows "question_matches (open_tag @ s) = g # question_matches rest"
proof -
  have e: "open_tag @ s = 0x3C # (tl open_tag @ s)"
    by (subst open_tag_Cons) simp
  show ?thesis
    using assms unfolding e by simp
qed

lemma question_matches_no_match:
  assumes "match_question (open_tag @ s) = None"
  shows "question_matches (open_tag @ s) = question_matches (tl open_tag @ s)"
proof -
  have e: "open_tag @ s = 0x3C # (tl open_tag @ s)"
    by (subst open_tag_Cons) simp
  show ?thesis
    using assms unfolding e by simp
qed

lemma question_matches_one:
  assumes "0x3C \<notin> set a" and "g \<noteq> []" and "0x3C \<notin> set g"
    and "\<forall>c\<in>set g. regex_dot_or_newline c"
  shows "question_matches (a @ open_tag @ g @ close_tag @ b) = g # question_matches b"
proof -
  from assms(2) obtain c cs where g: "g = c # cs" by (cases g) auto
  have "lazy_group [c] (cs @ close_tag @ b) = Some ([c] @ cs, b)"
    using assms(3,4) by (intro lazy_group_finds) (simp_all add: g)
  then have "match_question (open_tag @ g @ close_tag @ b) = Some (g, b)"
    using assms(4) by (simp add: match_question_at_open_tag g)
  then show ?thesis
    by (simp add: question_matches_skip [OF assms(1)] question_matches_match)
qed

lemma question_matches_empty_pair:
  assumes "0x3C \<notin> set a" and "0x3C \<notin> set b"
  shows "question_matches (a @ open_tag @ close_tag @ b) = []"
proof -
  have t: "0x3C \<notin> set (tl open_tag)" "0x3C \<notin> set (tl close_tag)"
    by (simp_all add: open_tag_def close_tag_def js_def)
  have "lazy_group [0x3C] (tl close_tag @ b) = None"
    using t(2) assms(2) by (intro lazy_group_none) simp
  moreover have c: "close_tag @ b = 0x3C # (tl close_tag @ b)"
    by (subst close_tag_Cons) simp
  ultimately have "match_question (open_tag @ close_tag @ b) = None"
    by (simp only: match_question_at_open_tag c) simp
  then have "question_matches (open_tag @ close_tag @ b) = question_matches (tl open_tag @ close_tag @ b)"
    by (rule question_matches_no_match)
  also have "\<dots> = question_matches (close_tag @ b)"
    using t(1) by (rule question_matches_skip)
  also have "\<dots> = question_matches (tl close_tag @ b)"
  proof -
    have e: "close_tag @ b = 0x3C # (tl close_tag @ b)"
      by (subst close_tag_Cons) simp
    have "\<not> prefix open_tag (0x3C # (tl close_tag @ b))"
      by (simp add: open_tag_def close_tag_def js_def)
    then show ?thesis
      unfolding e by (simp add: match_question_def)
  qed
  also have "\<dots> = []"
    using t(2) assms(2) by (intro question_matches_none) simp
  finally show ?thesis
    by (simp add: question_matches_skip [OF assms(1)])
qed


lemma regex_dot_or_newline_iff: "regex_dot_or_newline c \<longleftrightarrow> c \<noteq> 0x2028 \<and> c \<noteq> 0x2029"
  by (auto simp: regex_dot_or_newline_def regex_dot_def is_line_terminator_def)

lemma summarize_success:
  assumes "truthy (response_summary_agent_id config)" and "truthy (error_summary_agent_id config)"
    and "fst (request_summary ML_COMMONS_API_PREFIX config client generateFieldContext request_body
                (JSON_stringify_string (response request_body))) = Inr answer"
    and "element (inference_results answer) 0 = Some inference"
    and "element (output inference) 0 = Some out"
    and "result out = Some summary"
    and "summary \<noteq> []"
  shows "fst (summarize ML_COMMONS_API_PREFIX config client generateFieldContext request_body) =
           \<lparr>statusCode = 200,
            body = SummaryBody summary
                     (question_matches
                        (case element (output inference) 1 of
                           None \<Rightarrow> []
                         | Some second \<Rightarrow> (case result second of None \<Rightarrow> [] | Some text \<Rightarrow> text)))\<rparr>"
proof -
  have "first_result answer = Inr (Some summary)"
    using first_result_eq [OF assms(4) assms(5)] assms(6) by simp
  then have "summarize_result answer =
      Inr (response_ok (SummaryBody summary
             (question_matches
                (case element (output inference) 1 of
                   None \<Rightarrow> []
                 | Some second \<Rightarrow> (case result second of None \<Rightarrow> [] | Some text \<Rightarrow> text)))))"
    using assms(4,7)
    by (simp add: summarize_result_def second_result_or_empty_def truthy_def split: option.splits)
  then show ?thesis
    using summarize_answered [OF assms(1) assms(2) assms(3)] by (simp add: response_ok_def)
qed

lemma example_questions:
  "question_matches (js ''<question>A?</question> junk <question>B?</question>'') = [js ''A?'', js ''B?'']"
  by code_simp

text \<open>
  C7. A successful summarize request answers 200 with the summary and, as
  \<^verbatim>\<open>suggestedQuestions\<close>, the matches of the question pattern in
  \<^verbatim>\<open>inference_results[0].output[1].result\<close>, taken as the empty string when
  \<^verbatim>\<open>output[1]\<close> or its result is absent. The empty string gives no question and
  no error; \<^verbatim>\<open><question>A?</question> junk <question>B?</question>\<close> gives
  \<^verbatim>\<open>A?\<close> then \<^verbatim>\<open>B?\<close>; and a pair of tags around a non-empty inner text, which
  may hold carriage returns and line feeds (any character but \<^verbatim>\<open><\<close>, U+2028 and
  U+2029), after a text without \<^verbatim>\<open><\<close>, gives that inner text first and then the
  matches of what follows the closing tag.
\<close>

theorem suggested_questions:
  "(truthy (response_summary_agent_id config) \<and> truthy (error_summary_agent_id config)
    \<and> fst (request_summary ML_COMMONS_API_PREFIX config client generateFieldContext request_body
              (JSON_stringify_string (response request_body))) = Inr answer
    \<and> element (inference_results answer) 0 = Some inference
    \<and> element (output inference) 0 = Some out
    \<and> result out = Some summary \<and> summary \<noteq> [] \<longrightarrow>
    fst (summarize ML_COMMONS_API_PREFIX config client generateFieldContext request_body) =
      \<lparr>statusCode = 200,
       body = SummaryBody summary
                (question_matches
                   (case element (output inference) 1 of
                      None \<Rightarrow> []
                    | Some second \<Rightarrow> (case result second of None \<Rightarrow> [] | Some text \<Rightarrow> text)))\<rparr>)
   \<and> question_matches [] = []
   \<and> question_matches (js ''<question>A?</question> junk <question>B?</question>'') = [js ''A?'', js ''B?'']
   \<and> (0x3C \<notin> set before \<and> inner \<noteq> [] \<and> 0x3C \<notin> set inner
       \<and> (\<forall>c\<in>set inner. c \<noteq> 0x2028 \<and> c \<noteq> 0x2029) \<longrightarrow>
       question_matches (before @ open_tag @ inner @ close_tag @ after) = inner # question_matches after)"
proof (intro conjI impI)
  assume "truthy (response_summary_agent_id config) \<and> truthy (error_summary_agent_id config)
    \<and> fst (request_summary ML_COMMONS_API_PREFIX config client generateFieldContext request_body
              (JSON_stringify_string (response request_body))) = Inr answer
    \<and> element (inference_results answer) 0 = Some inference
    \<and> element (output inference) 0 = Some out
    \<and> result out = Some summary \<and> summary \<noteq> []"
  then have h: "truthy (response_summary_agent_id config)" "truthy (error_summary_agent_id config)"
    "fst (request_summary ML_COMMONS_API_PREFIX config client generateFieldContext request_body
              (JSON_stringify_string (response request_body))) = Inr answer"
    "element (inference_results answer) 0 = Some inference"
    "element (output inference) 0 = Some out"
    "result out = Some summary" "summary \<noteq> []"
    by simp_all
  show "fst (summarize ML_COMMONS_API_PREFIX config client generateFieldContext request_body) =
      \<lparr>statusCode = 200,
       body = SummaryBody summary
                (question_matches
                   (case element (output inference) 1 of
                      None \<Rightarrow> []
                    | Some second \<Rightarrow> (case result second of None \<Rightarrow> [] | Some text \<Rightarrow> text)))\<rparr>"
    by (rule summarize_success [OF h])
next
  show "question_matches [] = []" by simp
next
  show "question_matches (js ''<question>A?</question> junk <question>B?</question>'') = [js ''A?'', js ''B?'']"
    by (rule example_questions)
next
  assume "0x3C \<notin> set before \<and> inner \<noteq> [] \<and> 0x3C \<notin> set inner
       \<and> (\<forall>c\<in>set inner. c \<noteq> 0x2028 \<and> c \<noteq> 0x2029)"
  then show "question_matches (before @ open_tag @ inner @ close_tag @ after) = inner # question_matches after"
    by (intro question_matches_one) (simp_all add: regex_dot_or_newline_iff)
qed

text \<open>
  C10 (amended). A \<^verbatim>\<open><question></question>\<close> pair with empty inner content
  contributes no element when no later closing tag can end the match: for every
  successful summarize request whose \<^verbatim>\<open>output[1].result\<close> is one such pair between
  two texts without \<^verbatim>\<open><\<close>, \<^verbatim>\<open>suggestedQuestions\<close> is the empty sequence.
\<close>

theorem empty_question_pair:
  assumes "truthy (response_summary_agent_id config)" and "truthy (error_summary_agent_id config)"
    and "fst (request_summary ML_COMMONS_API_PREFIX config client generateFieldContext request_body
                (JSON_stringify_string (response request_body))) = Inr answer"
    and "element (inference_results answer) 0 = Some inference"
    and "element (output inference) 0 = Some out"
    and "result out = Some summary"
    and "summary \<noteq> []"
    and "element (output inference) 1 = Some second"
    and "result second = Some (before @ open_tag @ close_tag @ after)"
    and "0x3C \<notin> set before" and "0x3C \<notin> set after"
  shows "fst (summarize ML_COMMONS_API_PREFIX config client generateFieldContext request_body) =
           \<lparr>statusCode = 200, body = SummaryBody summary []\<rparr>"
  using summarize_success [OF assms(1-7)] assms(8,9) question_matches_empty_pair [OF assms(10,11)]
  by simp


lemma summary_answer_parts:
  "element (inference_results (summary_answer text)) 0 =
     Some \<lparr>output = [\<lparr>name = js ''response'', result = Some (js ''All good.'')\<rparr>,
                     \<lparr>name = js ''response'', result = Some text\<rparr>]\<rparr>"
  "element (output \<lparr>output = [\<lparr>name = js ''response'', result = Some (js ''All good.'')\<rparr>,
                             \<lparr>name = js ''response'', result = Some text\<rparr>]\<rparr>) 0 =
     Some \<lparr>name = js ''response'', result = Some (js ''All good.'')\<rparr>"
  "element (output \<lparr>output = [\<lparr>name = js ''response'', result = Some (js ''All good.'')\<rparr>,
                             \<lparr>name = js ''response'', result = Some text\<rparr>]\<rparr>) 1 =
     Some \<lparr>name = js ''response'', result = Some text\<rparr>"
  "result \<lparr>name = js ''response'', result = Some (js ''All good.'')\<rparr> = Some (js ''All good.'')"
  "result \<lparr>name = js ''response'', result = Some text\<rparr> = Some text"
  "js ''All good.'' \<noteq> []"
  by (simp_all add: summary_answer_def answer_with_def element_def js_def)

lemma summarize_summary_answer:
  "fst (summarize p example_config (answering_client (summary_answer text)) example_fields b) =
     \<lparr>statusCode = 200, body = SummaryBody (js ''All good.'') (question_matches text)\<rparr>"
proof -
  have r: "fst (request_summary p example_config (answering_client (summary_answer text)) example_fields b
                 (JSON_stringify_string (response b))) = Inr (summary_answer text)"
    by (rule request_summary_answering)
  show ?thesis
    using summarize_success [OF example_config_truthy(2) example_config_truthy(3) r
            summary_answer_parts(1) summary_answer_parts(2) summary_answer_parts(4) summary_answer_parts(6)]
    by (simp only: summary_answer_parts option.case)
qed

theorem suggested_questions_witness:
  "fst (summarize (js ''/_plugins/_ml'') example_config
          (answering_client (summary_answer (js ''<question>A?</question> junk <question>B?</question>'')))
          example_fields (example_summary_request True)) =
     \<lparr>statusCode = 200, body = SummaryBody (js ''All good.'') [js ''A?'', js ''B?'']\<rparr>
   \<and> question_matches (js ''see '' @ open_tag @ (js ''A?'' @ [0x0A] @ js ''B?'') @ close_tag @ js '' end'') =
       [js ''A?'' @ [0x0A] @ js ''B?'']"
proof -
  note t = suggested_questions
    [where config = example_config and ML_COMMONS_API_PREFIX = "js ''/_plugins/_ml''"
       and client = "answering_client (summary_answer (js ''<question>A?</question> junk <question>B?</question>''))"
       and generateFieldContext = example_fields and request_body = "example_summary_request True"
       and answer = "summary_answer (js ''<question>A?</question> junk <question>B?</question>'')"
       and inference = "\<lparr>output = [\<lparr>name = js ''response'', result = Some (js ''All good.'')\<rparr>,
                     \<lparr>name = js ''response'', result = Some (js ''<question>A?</question> junk <question>B?</question>'')\<rparr>]\<rparr>"
       and out = "\<lparr>name = js ''response'', result = Some (js ''All good.'')\<rparr>"
       and summary = "js ''All good.''"
       and before = "js ''see ''" and inner = "js ''A?'' @ [0x0A] @ js ''B?''" and after = "js '' end''"]
  have h: "truthy (response_summary_agent_id example_config) \<and> truthy (error_summary_agent_id example_config)
    \<and> fst (request_summary (js ''/_plugins/_ml'') example_config
              (answering_client (summary_answer (js ''<question>A?</question> junk <question>B?</question>'')))
              example_fields (example_summary_request True)
              (JSON_stringify_string (response (example_summary_request True)))) =
        Inr (summary_answer (js ''<question>A?</question> junk <question>B?</question>''))
    \<and> element (inference_results (summary_answer (js ''<question>A?</question> junk <question>B?</question>''))) 0 =
        Some \<lparr>output = [\<lparr>name = js ''response'', result = Some (js ''All good.'')\<rparr>,
                     \<lparr>name = js ''response'', result = Some (js ''<question>A?</question> junk <question>B?</question>'')\<rparr>]\<rparr>
    \<and> element (output \<lparr>output = [\<lparr>name = js ''response'', result = Some (js ''All good.'')\<rparr>,
                     \<lparr>name = js ''response'', result = Some (js ''<question>A?</question> junk <question>B?</question>'')\<rparr>]\<rparr>) 0 =
        Some \<lparr>name = js ''response'', result = Some (js ''All good.'')\<rparr>
    \<and> result \<lparr>name = js ''response'', result = Some (js ''All good.'')\<rparr> = Some (js ''All good.'')
    \<and> js ''All good.'' \<noteq> []"
    by (intro conjI example_config_truthy request_summary_answering summary_answer_parts)
  have g: "0x3C \<notin> set (js ''see '') \<and> js ''A?'' @ [0x0A] @ js ''B?'' \<noteq> []
      \<and> 0x3C \<notin> set (js ''A?'' @ [0x0A] @ js ''B?'')
      \<and> (\<forall>c\<in>set (js ''A?'' @ [0x0A] @ js ''B?''). c \<noteq> 0x2028 \<and> c \<noteq> 0x2029)"
    by (simp add: js_def)
  have e: "question_matches (js '' end'') = []"
    by (rule question_matches_none) (simp add: js_def)
  from t have "fst (summarize (js ''/_plugins/_ml'') example_config
          (answering_client (summary_answer (js ''<question>A?</question> junk <question>B?</question>'')))
          example_fields (example_summary_request True)) =
      \<lparr>statusCode = 200,
       body = SummaryBody (js ''All good.'')
                (question_matches
                   (case element (output \<lparr>output = [\<lparr>name = js ''response'', result = Some (js ''All good.'')\<rparr>,
                     \<lparr>name = js ''response'', result = Some (js ''<question>A?</question> junk <question>B?</question>'')\<rparr>]\<rparr>) 1 of
                      None \<Rightarrow> []
                    | Some second \<Rightarrow> (case result second of None \<Rightarrow> [] | Some text \<Rightarrow> text)))\<rparr>"
    using h by blast
  then have "fst (summarize (js ''/_plugins/_ml'') example_config
          (answering_client (summary_answer (js ''<question>A?</question> junk <question>B?</question>'')))
          example_fields (example_summary_request True)) =
     \<lparr>statusCode = 200, body = SummaryBody (js ''All good.'') [js ''A?'', js ''B?'']\<rparr>"
    by (simp only: summary_answer_parts option.case example_questions)
  moreover from t have "question_matches (js ''see '' @ open_tag @ (js ''A?'' @ [0x0A] @ js ''B?'') @ close_tag @ js '' end'') =
       (js ''A?'' @ [0x0A] @ js ''B?'') # question_matches (js '' end'')"
    using g by blast
  then have "question_matches (js ''see '' @ open_tag @ (js ''A?'' @ [0x0A] @ js ''B?'') @ close_tag @ js '' end'') =
       [js ''A?'' @ [0x0A] @ js ''B?'']"
    by (simp only: e)
  ultimately show ?thesis by (rule conjI)
qed

lemma adjacent_empty_pairs:
  "question_matches (js ''<question></question><question></question>'') = [js ''</question><question>'']"
  by code_simp

text \<open>
  C10 as stated fails: the pattern wants one character at least after the opening
  tag and takes the closing tag of an empty pair for it, so of two empty pairs in a row
  the text between the first opening and the last closing tag is returned.
\<close>

theorem adjacent_empty_pairs_counterexample:
  "fst (summarize (js ''/_plugins/_ml'') example_config
          (answering_client (summary_answer (js ''<question></question><question></question>'')))
          example_fields (example_summary_request False)) =
     \<lparr>statusCode = 200, body = SummaryBody (js ''All good.'') [js ''</question><question>'']\<rparr>"
  by (simp only: summarize_summary_answer adjacent_empty_pairs)

theorem empty_question_pair_witness:
  "fst (summarize (js ''/_plugins/_ml'') example_config
          (answering_client (summary_answer (js ''Ask: '' @ open_tag @ close_tag @ js '' (none)'')))
          example_fields (example_summary_request False)) =
     \<lparr>statusCode = 200, body = SummaryBody (js ''All good.'') []\<rparr>"
proof -
  have a: "0x3C \<notin> set (js ''Ask: '')" and b: "0x3C \<notin> set (js '' (none)'')"
    by (simp_all add: js_def)
  show ?thesis
    by (rule empty_question_pair [OF example_config_truthy(2) example_config_truthy(3)
          request_summary_answering summary_answer_parts(1) summary_answer_parts(2)
          summary_answer_parts(4) summary_answer_parts(6) summary_answer_parts(3)
          summary_answer_parts(5) a b])
qed


end
